theory Spec2Isabelle
  imports Main "HOL-Library.Word"
begin

section \<open>Go strings as byte lists\<close>

text \<open>
  A Go \<open>string\<close> is a sequence of bytes, modelled as \<open>string\<close> (a \<open>char list\<close>).
  The functions of package \<open>strings\<close> that the adapters call are written out here; an
  index that Go reports as \<open>-1\<close> is \<open>None\<close>.
\<close>

fun HasPrefix :: "string \<Rightarrow> string \<Rightarrow> bool" where
  "HasPrefix s [] = True"
| "HasPrefix [] (p # ps) = False"
| "HasPrefix (c # cs) (p # ps) = (c = p \<and> HasPrefix cs ps)"

definition HasSuffix :: "string \<Rightarrow> string \<Rightarrow> bool" where
  "HasSuffix s suf = HasPrefix (rev s) (rev suf)"

fun Contains :: "string \<Rightarrow> string \<Rightarrow> bool" where
  "Contains [] sub = (sub = [])"
| "Contains (c # cs) sub = (HasPrefix (c # cs) sub \<or> Contains cs sub)"

fun Index :: "string \<Rightarrow> string \<Rightarrow> nat option" where
  "Index [] sub = (if sub = [] then Some 0 else None)"
| "Index (c # cs) sub =
     (if HasPrefix (c # cs) sub then Some 0
      else (case Index cs sub of None \<Rightarrow> None | Some i \<Rightarrow> Some (Suc i)))"

definition TrimPrefix :: "string \<Rightarrow> string \<Rightarrow> string" where
  "TrimPrefix s p = (if HasPrefix s p then drop (length p) s else s)"

definition TrimSuffix :: "string \<Rightarrow> string \<Rightarrow> string" where
  "TrimSuffix s suf = (if HasSuffix s suf then take (length s - length suf) s else s)"

text \<open>
  \<open>strings.ReplaceAll\<close>: the non-overlapping occurrences of \<open>old\<close>, found from the left,
  are replaced. (For an empty \<open>old\<close> Go inserts \<open>new\<close> before every character and at the
  end; the adapters only call it with \<open>old = ".."\<close>.)
\<close>

fun ReplaceAll :: "string \<Rightarrow> string \<Rightarrow> string \<Rightarrow> string" where
  "ReplaceAll [] old new = (if old = [] then new else [])"
| "ReplaceAll (c # cs) old new =
     (if HasPrefix (c # cs) old then new @ ReplaceAll (drop (length old - 1) cs) old new
      else c # ReplaceAll cs old new)"

section \<open>Package client: the uniform data types\<close>

type_synonym int64 = "64 word"
type_synonym uint64 = "64 word"
type_synonym FileMode = "32 word"

text \<open>A \<open>time.Time\<close> is kept abstract: a number the backend or the clock supplies.\<close>

type_synonym time = int

record FileInfo =
  Name :: string
  Size :: int64
  ModTime :: time
  IsDir :: bool
  Mode :: FileMode
  Path :: string

section \<open>The FTP adapter: paths and listing entries\<close>

record ftp_Config =
  ftp_Host :: string
  ftp_Port :: int
  ftp_Username :: string
  ftp_Password :: string
  ftp_Path :: string

text \<open>\<open>resolvePath\<close> of \<open>pkg/ftp/ftp.go\<close>.\<close>

definition ftp_resolvePath :: "ftp_Config \<Rightarrow> string \<Rightarrow> string" where
  "ftp_resolvePath cfg path =
     (if ftp_Path cfg \<noteq> [] then ftp_Path cfg @ ''/'' @ path else path)"

text \<open>The permission bits \<open>0644\<close> (octal) are the number 420.\<close>

text \<open>An entry of the FTP library's listing, as far as \<open>ListDirectory\<close> reads it.\<close>

datatype ftp_EntryType = EntryTypeFile | EntryTypeFolder | EntryTypeLink

record ftp_Entry =
  entry_Name :: string
  entry_Size :: uint64
  entry_Time :: time
  entry_Type :: ftp_EntryType

text \<open>
  The body of the loop of \<open>ListDirectory\<close>: \<open>int64(entry.Size)\<close> reinterprets the 64 bits
  (the same word read by \<open>sint\<close>), and a size above \<open>1<<63 - 1\<close> is replaced.
\<close>

definition ftp_entry_size :: "ftp_Entry \<Rightarrow> int64" where
  "ftp_entry_size entry =
     (let size = entry_Size entry
      in if entry_Size entry > (2 ^ 63 - 1 :: uint64) then (2 ^ 63 - 1 :: int64) else size)"

definition ftp_entry_info :: "string \<Rightarrow> ftp_Entry \<Rightarrow> FileInfo" where
  "ftp_entry_info path entry =
     \<lparr> Name = entry_Name entry,
       Size = ftp_entry_size entry,
       ModTime = entry_Time entry,
       IsDir = (entry_Type entry = EntryTypeFolder),
       Mode = 420,
       Path = path @ ''/'' @ entry_Name entry \<rparr>"

section \<open>Package path/filepath (Unix)\<close>

text \<open>
  The adapters run on Unix (the NFS one on Linux only): the separator is \<open>/\<close> and there
  is no volume name. \<open>splitSep\<close> is \<open>strings.Split(s, "/")\<close>, \<open>joinSep\<close> is
  \<open>strings.Join(xs, "/")\<close>.
\<close>

fun splitSep :: "string \<Rightarrow> string list" where
  "splitSep [] = [[]]"
| "splitSep (c # cs) =
     (if c = CHR ''/'' then [] # splitSep cs
      else (case splitSep cs of [] \<Rightarrow> [[c]] | x # xs \<Rightarrow> (c # x) # xs))"

fun joinSep :: "string list \<Rightarrow> string" where
  "joinSep [] = []"
| "joinSep [x] = x"
| "joinSep (x # y # ys) = x @ ''/'' @ joinSep (y # ys)"

text \<open>
  \<open>filepath.Clean\<close> reads the path element by element and keeps a buffer of the
  elements written so far (\<open>out\<close>, the last one first): an empty element and \<open>.\<close> are
  dropped; \<open>..\<close> removes the last written element when there is one that is not itself
  \<open>..\<close>, is dropped at the root of a rooted path, and is written otherwise; any other
  element is written. The result is the written elements joined by \<open>/\<close>, after the
  leading \<open>/\<close> of a rooted path, and \<open>.\<close> when that is empty.
\<close>

fun clean_elems :: "bool \<Rightarrow> string list \<Rightarrow> string list \<Rightarrow> string list" where
  "clean_elems rooted out [] = rev out"
| "clean_elems rooted out (e # es) =
     (if e = [] \<or> e = ''.'' then clean_elems rooted out es
      else if e = ''..'' then
        (case out of
           [] \<Rightarrow> if rooted then clean_elems rooted [] es else clean_elems rooted [''..''] es
         | t # ts \<Rightarrow>
             if t \<noteq> ''..'' then clean_elems rooted ts es
             else if rooted then clean_elems rooted out es
             else clean_elems rooted (''..'' # out) es)
      else clean_elems rooted (e # out) es)"

definition Clean :: "string \<Rightarrow> string" where
  "Clean path =
     (if path = [] then ''.''
      else
        let rooted = (hd path = CHR ''/'');
            s = (if rooted then ''/'' else []) @ joinSep (clean_elems rooted [] (splitSep path))
        in if s = [] then ''.'' else s)"

text \<open>
  \<open>filepath.Join\<close> of two elements: empty leading elements are ignored, the rest is
  joined by \<open>/\<close> and cleaned; with nothing but empty elements the result is empty.
\<close>

definition Join :: "string \<Rightarrow> string \<Rightarrow> string" where
  "Join a b =
     (if a \<noteq> [] then Clean (a @ ''/'' @ b)
      else if b \<noteq> [] then Clean b
      else [])"

text \<open>\<open>filepath.Dir\<close>: everything up to the last separator, cleaned.\<close>

definition Dir :: "string \<Rightarrow> string" where
  "Dir path = Clean (rev (dropWhile (\<lambda>c. c \<noteq> CHR ''/'') (rev path)))"

text \<open>
  \<open>filepath.Base\<close>: the last element; trailing separators are removed first; \<open>.\<close> for the
  empty path and \<open>/\<close> for a path of separators only.
\<close>

definition Base :: "string \<Rightarrow> string" where
  "Base path =
     (if path = [] then ''.''
      else
        let p = rev (dropWhile (\<lambda>c. c = CHR ''/'') (rev path));
            b = rev (takeWhile (\<lambda>c. c \<noteq> CHR ''/'') (rev p))
        in if b = [] then ''/'' else b)"

section \<open>Path resolution of the Local and NFS adapters\<close>

text \<open>
  \<open>resolvePath\<close> of \<open>pkg/local/local.go\<close> and of \<open>pkg/nfs/nfs.go\<close> have the same body;
  the base is \<open>c.basePath\<close> for Local and \<open>c.mountPoint\<close> for NFS. \<open>cleanPath\<close> is the
  value of the variable \<open>cleanPath\<close> when it is joined onto the base; \<open>resolveURL\<close> of
  the WebDAV adapter computes it the same way.
\<close>

definition cleanPath :: "string \<Rightarrow> string" where
  "cleanPath path =
     (if Contains (Clean path) ''..'' then ReplaceAll (Clean path) ''..'' [] else Clean path)"

definition local_resolvePath :: "string \<Rightarrow> string \<Rightarrow> string" where
  "local_resolvePath basePath path = Join basePath (cleanPath path)"

definition nfs_resolvePath :: "string \<Rightarrow> string \<Rightarrow> string" where
  "nfs_resolvePath mountPoint path = Join mountPoint (cleanPath path)"

section \<open>Backends as logged calls\<close>

text \<open>
  An adapter talks to its backend through the operating system, the SMB and FTP
  libraries and the HTTP client. Each such call is a \<open>call\<close>; the calls made so far are
  the \<open>log\<close>, oldest first. What a call returns is decided by the environment, a record
  of functions from the log so far and the call's arguments to its result. An
  operation of an adapter takes the adapter's state and the log and returns its result
  with the new state and the new log, so that "no backend call" is "the log is
  unchanged" and "no state change" is "the state is unchanged".
\<close>

type_synonym handle = nat

text \<open>An \<open>io.Reader\<close>: bytes supplied by the caller, or an open file or response body.\<close>

datatype reader = Bytes string | Stream handle

record request =
  req_Method :: string
  req_URL :: string
  req_BasicAuth :: "(string \<times> string) option"
  req_Header :: "(string \<times> string) list"
  req_Body :: "reader option"

datatype call =
    OsStat string
  | OsOpen string
  | OsCreate string
  | OsMkdirAll string
  | OsReadDir string
  | OsRemove string
  | OsRemoveAll string
  | IoCopy handle reader
  | Close handle
  | SysMount string string string string
  | SysUnmount string
  | SmbOpen handle string
  | SmbCreate handle string
  | SmbStat handle string
  | SmbReadDir handle string
  | SmbMkdir handle string
  | SmbRemove handle string
  | SmbUmount handle
  | SmbLogoff handle
  | ConnClose handle
  | FtpQuit handle
  | FtpCurrentDir handle
  | FtpRetr handle string
  | FtpStor handle string reader
  | FtpFileSize handle string
  | FtpList handle string
  | FtpMakeDir handle string
  | FtpRemoveDir handle string
  | FtpDelete handle string
  | HttpDo request

type_synonym log = "call list"

text \<open>What an operation hands back: the Go return values, or a run-time panic.\<close>

datatype "value" = NoValue | Reader handle | Info FileInfo | Files "FileInfo list" | Bool bool

datatype result = Return "value" "string option" | Panic string

definition not_connected :: result where
  "not_connected = Return NoValue (Some ''not connected'')"

text \<open>
  An error of package \<open>os\<close>: its message and whether \<open>os.IsNotExist\<close> holds of it. The
  other libraries' errors are their messages.
\<close>

datatype os_error = OsError (os_msg: string) (os_notexist: bool)

text \<open>An \<open>os.FileInfo\<close> and an \<open>os.DirEntry\<close> (whose \<open>Info()\<close> may fail).\<close>

record stat_info =
  st_Name :: string
  st_Size :: int64
  st_ModTime :: time
  st_IsDir :: bool
  st_Mode :: FileMode

record dir_entry =
  de_Name :: string
  de_IsDir :: bool
  de_Info :: "os_error + stat_info"

record os_env =
  os_Stat :: "log \<Rightarrow> string \<Rightarrow> os_error + stat_info"
  os_Open :: "log \<Rightarrow> string \<Rightarrow> os_error + handle"
  os_Create :: "log \<Rightarrow> string \<Rightarrow> os_error + handle"
  os_MkdirAll :: "log \<Rightarrow> string \<Rightarrow> os_error option"
  os_ReadDir :: "log \<Rightarrow> string \<Rightarrow> os_error + dir_entry list"
  os_Remove :: "log \<Rightarrow> string \<Rightarrow> os_error option"
  os_RemoveAll :: "log \<Rightarrow> string \<Rightarrow> os_error option"
  io_Copy :: "log \<Rightarrow> handle \<Rightarrow> reader \<Rightarrow> string option"
  sys_Mount :: "log \<Rightarrow> string \<Rightarrow> string \<Rightarrow> string \<Rightarrow> string \<Rightarrow> string option"
  sys_Unmount :: "log \<Rightarrow> string \<Rightarrow> string option"
  proc_mounts_opens :: "log \<Rightarrow> bool"

definition stat_FileInfo :: "stat_info \<Rightarrow> string \<Rightarrow> FileInfo" where
  "stat_FileInfo stat path =
     \<lparr> Name = st_Name stat, Size = st_Size stat, ModTime = st_ModTime stat,
       IsDir = st_IsDir stat, Mode = st_Mode stat, Path = path \<rparr>"

text \<open>
  The loop of \<open>ListDirectory\<close> of the Local and NFS adapters: an entry whose \<open>Info()\<close>
  fails is skipped.
\<close>

fun os_entries :: "string \<Rightarrow> dir_entry list \<Rightarrow> FileInfo list" where
  "os_entries path [] = []"
| "os_entries path (entry # entries) =
     (case de_Info entry of
        Inl err \<Rightarrow> os_entries path entries
      | Inr info \<Rightarrow>
          \<lparr> Name = de_Name entry, Size = st_Size info, ModTime = st_ModTime info,
            IsDir = de_IsDir entry, Mode = st_Mode info,
            Path = Join path (de_Name entry) \<rparr> # os_entries path entries)"

section \<open>The Local adapter\<close>

record local_Config =
  BasePath :: string

record local_Client =
  local_config :: local_Config
  local_basePath :: string
  local_connected :: bool

definition NewLocalClient :: "local_Config \<Rightarrow> local_Client" where
  "NewLocalClient config =
     \<lparr> local_config = config, local_basePath = BasePath config, local_connected = False \<rparr>"

definition local_Connect ::
  "os_env \<Rightarrow> local_Client \<times> log \<Rightarrow> result \<times> local_Client \<times> log" where
  "local_Connect E = (\<lambda>(c, log).
     (case os_Stat E log (local_basePath c) of
        Inl err \<Rightarrow>
          (Return NoValue
             (Some (''failed to access base path '' @ local_basePath c @ '': '' @ os_msg err)),
           c, log @ [OsStat (local_basePath c)])
      | Inr info \<Rightarrow>
          if \<not> st_IsDir info then
            (Return NoValue
               (Some (''base path '' @ local_basePath c @ '' is not a directory'')),
             c, log @ [OsStat (local_basePath c)])
          else (Return NoValue None, c\<lparr>local_connected := True\<rparr>,
                log @ [OsStat (local_basePath c)])))"

definition local_Disconnect :: "local_Client \<times> log \<Rightarrow> result \<times> local_Client \<times> log" where
  "local_Disconnect = (\<lambda>(c, log). (Return NoValue None, c\<lparr>local_connected := False\<rparr>, log))"

definition local_IsConnected :: "local_Client \<Rightarrow> bool" where
  "local_IsConnected c = local_connected c"

definition local_TestConnection ::
  "os_env \<Rightarrow> local_Client \<times> log \<Rightarrow> result \<times> local_Client \<times> log" where
  "local_TestConnection E = (\<lambda>(c, log).
     if \<not> local_IsConnected c then (not_connected, c, log)
     else
       (case os_Stat E log (local_basePath c) of
          Inl err \<Rightarrow> (Return NoValue (Some (os_msg err)), c, log @ [OsStat (local_basePath c)])
        | Inr info \<Rightarrow> (Return NoValue None, c, log @ [OsStat (local_basePath c)])))"

definition local_ReadFile ::
  "os_env \<Rightarrow> string \<Rightarrow> local_Client \<times> log \<Rightarrow> result \<times> local_Client \<times> log" where
  "local_ReadFile E path = (\<lambda>(c, log).
     if \<not> local_IsConnected c then (not_connected, c, log)
     else
       let fullPath = local_resolvePath (local_basePath c) path
       in (case os_Open E log fullPath of
             Inl err \<Rightarrow>
               (Return NoValue
                  (Some (''failed to open local file '' @ fullPath @ '': '' @ os_msg err)),
                c, log @ [OsOpen fullPath])
           | Inr file \<Rightarrow> (Return (Reader file) None, c, log @ [OsOpen fullPath])))"

definition local_WriteFile ::
  "os_env \<Rightarrow> string \<Rightarrow> reader \<Rightarrow> local_Client \<times> log \<Rightarrow> result \<times> local_Client \<times> log" where
  "local_WriteFile E path data = (\<lambda>(c, log).
     if \<not> local_IsConnected c then (not_connected, c, log)
     else
       let fullPath = local_resolvePath (local_basePath c) path;
           dir = Dir fullPath;
           log1 = log @ [OsMkdirAll dir];
           log2 = log1 @ [OsCreate fullPath]
       in (case os_MkdirAll E log dir of
             Some err \<Rightarrow>
               (Return NoValue
                  (Some (''failed to create directory '' @ dir @ '': '' @ os_msg err)), c, log1)
           | None \<Rightarrow>
               (case os_Create E log1 fullPath of
                  Inl err \<Rightarrow>
                    (Return NoValue
                       (Some (''failed to create local file '' @ fullPath @ '': '' @ os_msg err)),
                     c, log2)
                | Inr file \<Rightarrow>
                    (case io_Copy E log2 file data of
                       Some err \<Rightarrow>
                         (Return NoValue
                            (Some (''failed to write local file '' @ fullPath @ '': '' @ err)),
                          c, log2 @ [IoCopy file data, Close file])
                     | None \<Rightarrow>
                         (Return NoValue None, c, log2 @ [IoCopy file data, Close file])))))"

definition local_GetFileInfo ::
  "os_env \<Rightarrow> string \<Rightarrow> local_Client \<times> log \<Rightarrow> result \<times> local_Client \<times> log" where
  "local_GetFileInfo E path = (\<lambda>(c, log).
     if \<not> local_IsConnected c then (not_connected, c, log)
     else
       let fullPath = local_resolvePath (local_basePath c) path
       in (case os_Stat E log fullPath of
             Inl err \<Rightarrow>
               (Return NoValue
                  (Some (''failed to stat local file '' @ fullPath @ '': '' @ os_msg err)),
                c, log @ [OsStat fullPath])
           | Inr stat \<Rightarrow>
               (Return (Info (stat_FileInfo stat path)) None, c, log @ [OsStat fullPath])))"

definition local_ListDirectory ::
  "os_env \<Rightarrow> string \<Rightarrow> local_Client \<times> log \<Rightarrow> result \<times> local_Client \<times> log" where
  "local_ListDirectory E path = (\<lambda>(c, log).
     if \<not> local_IsConnected c then (not_connected, c, log)
     else
       let fullPath = local_resolvePath (local_basePath c) path
       in (case os_ReadDir E log fullPath of
             Inl err \<Rightarrow>
               (Return NoValue
                  (Some (''failed to list local directory '' @ fullPath @ '': '' @ os_msg err)),
                c, log @ [OsReadDir fullPath])
           | Inr entries \<Rightarrow>
               (Return (Files (os_entries path entries)) None, c, log @ [OsReadDir fullPath])))"

definition local_FileExists ::
  "os_env \<Rightarrow> string \<Rightarrow> local_Client \<times> log \<Rightarrow> result \<times> local_Client \<times> log" where
  "local_FileExists E path = (\<lambda>(c, log).
     if \<not> local_IsConnected c then (Return (Bool False) (Some ''not connected''), c, log)
     else
       let fullPath = local_resolvePath (local_basePath c) path
       in (case os_Stat E log fullPath of
             Inl err \<Rightarrow>
               if os_notexist err then (Return (Bool False) None, c, log @ [OsStat fullPath])
               else
                 (Return (Bool False)
                    (Some (''failed to check local file existence '' @ fullPath @ '': '' @
                           os_msg err)),
                  c, log @ [OsStat fullPath])
           | Inr stat \<Rightarrow> (Return (Bool True) None, c, log @ [OsStat fullPath])))"

definition local_CreateDirectory ::
  "os_env \<Rightarrow> string \<Rightarrow> local_Client \<times> log \<Rightarrow> result \<times> local_Client \<times> log" where
  "local_CreateDirectory E path = (\<lambda>(c, log).
     if \<not> local_IsConnected c then (not_connected, c, log)
     else
       let fullPath = local_resolvePath (local_basePath c) path
       in (case os_MkdirAll E log fullPath of
             Some err \<Rightarrow>
               (Return NoValue
                  (Some (''failed to create local directory '' @ fullPath @ '': '' @ os_msg err)),
                c, log @ [OsMkdirAll fullPath])
           | None \<Rightarrow> (Return NoValue None, c, log @ [OsMkdirAll fullPath])))"

definition local_DeleteDirectory ::
  "os_env \<Rightarrow> string \<Rightarrow> local_Client \<times> log \<Rightarrow> result \<times> local_Client \<times> log" where
  "local_DeleteDirectory E path = (\<lambda>(c, log).
     if \<not> local_IsConnected c then (not_connected, c, log)
     else
       let fullPath = local_resolvePath (local_basePath c) path
       in (case os_RemoveAll E log fullPath of
             Some err \<Rightarrow>
               (Return NoValue
                  (Some (''failed to delete local directory '' @ fullPath @ '': '' @ os_msg err)),
                c, log @ [OsRemoveAll fullPath])
           | None \<Rightarrow> (Return NoValue None, c, log @ [OsRemoveAll fullPath])))"

definition local_DeleteFile ::
  "os_env \<Rightarrow> string \<Rightarrow> local_Client \<times> log \<Rightarrow> result \<times> local_Client \<times> log" where
  "local_DeleteFile E path = (\<lambda>(c, log).
     if \<not> local_IsConnected c then (not_connected, c, log)
     else
       let fullPath = local_resolvePath (local_basePath c) path
       in (case os_Remove E log fullPath of
             Some err \<Rightarrow>
               (Return NoValue
                  (Some (''failed to delete local file '' @ fullPath @ '': '' @ os_msg err)),
                c, log @ [OsRemove fullPath])
           | None \<Rightarrow> (Return NoValue None, c, log @ [OsRemove fullPath])))"

text \<open>
  \<open>CopyFile\<close>: the deferred \<open>Close\<close> calls run when the function returns, the last
  deferred first.
\<close>

definition os_copy ::
  "os_env \<Rightarrow> string \<Rightarrow> string \<Rightarrow> log \<Rightarrow> result \<times> log" where
  "os_copy E srcFullPath dstFullPath log =
     (let dstDir = Dir dstFullPath;
          log1 = log @ [OsMkdirAll dstDir];
          log2 = log1 @ [OsOpen srcFullPath];
          log3 = log2 @ [OsCreate dstFullPath]
      in (case os_MkdirAll E log dstDir of
            Some err \<Rightarrow>
              (Return NoValue
                 (Some (''failed to create destination directory '' @ dstDir @ '': '' @
                        os_msg err)), log1)
          | None \<Rightarrow>
              (case os_Open E log1 srcFullPath of
                 Inl err \<Rightarrow>
                   (Return NoValue
                      (Some (''failed to open source file '' @ srcFullPath @ '': '' @ os_msg err)),
                    log2)
               | Inr srcFile \<Rightarrow>
                   (case os_Create E log2 dstFullPath of
                      Inl err \<Rightarrow>
                        (Return NoValue
                           (Some (''failed to create destination file '' @ dstFullPath @ '': '' @
                                  os_msg err)),
                         log3 @ [Close srcFile])
                    | Inr dstFile \<Rightarrow>
                        (case io_Copy E log3 dstFile (Stream srcFile) of
                           Some err \<Rightarrow>
                             (Return NoValue
                                (Some (''failed to copy file from '' @ srcFullPath @ '' to '' @
                                       dstFullPath @ '': '' @ err)),
                              log3 @ [IoCopy dstFile (Stream srcFile), Close dstFile, Close srcFile])
                         | None \<Rightarrow>
                             (Return NoValue None,
                              log3 @ [IoCopy dstFile (Stream srcFile), Close dstFile,
                                      Close srcFile]))))))"

definition local_CopyFile ::
  "os_env \<Rightarrow> string \<Rightarrow> string \<Rightarrow> local_Client \<times> log \<Rightarrow> result \<times> local_Client \<times> log" where
  "local_CopyFile E srcPath dstPath = (\<lambda>(c, log).
     if \<not> local_IsConnected c then (not_connected, c, log)
     else
       let srcFullPath = local_resolvePath (local_basePath c) srcPath;
           dstFullPath = local_resolvePath (local_basePath c) dstPath;
           (r, log') = os_copy E srcFullPath dstFullPath log
       in (r, c, log'))"

section \<open>The NFS adapter\<close>

record nfs_Config =
  nfs_Host :: string
  nfs_Path :: string
  nfs_MountPoint :: string
  nfs_Options :: string

record nfs_Client =
  nfs_config :: nfs_Config
  nfs_mounted :: bool
  nfs_connected :: bool
  nfs_mountPoint :: string

definition NewNFSClient :: "nfs_Config \<Rightarrow> string + nfs_Client" where
  "NewNFSClient config =
     (if nfs_MountPoint config = [] then Inl ''mount point is required''
      else Inr \<lparr> nfs_config = config, nfs_mounted = False, nfs_connected = False,
                 nfs_mountPoint = nfs_MountPoint config \<rparr>)"

text \<open>
  \<open>isMounted\<close> only tries to open \<open>/proc/mounts\<close>. This probe of the local \<open>procfs\<close> is
  part of the connectivity check itself; it is read from the environment and is not
  entered in the log of backend calls.
\<close>

definition nfs_isMounted :: "os_env \<Rightarrow> log \<Rightarrow> bool" where
  "nfs_isMounted E log = proc_mounts_opens E log"

definition nfs_IsConnected :: "os_env \<Rightarrow> log \<Rightarrow> nfs_Client \<Rightarrow> bool" where
  "nfs_IsConnected E log c = (nfs_connected c \<and> nfs_mounted c \<and> nfs_isMounted E log)"

definition nfs_Connect :: "os_env \<Rightarrow> nfs_Client \<times> log \<Rightarrow> result \<times> nfs_Client \<times> log" where
  "nfs_Connect E = (\<lambda>(c, log).
     if nfs_isMounted E log then (Return NoValue None, c\<lparr>nfs_connected := True\<rparr>, log)
     else
       let log1 = log @ [OsMkdirAll (nfs_mountPoint c)];
           source = nfs_Host (nfs_config c) @ '':'' @ nfs_Path (nfs_config c);
           options = (if nfs_Options (nfs_config c) \<noteq> [] then nfs_Options (nfs_config c)
                      else ''vers=3'');
           log2 = log1 @ [SysMount source (nfs_mountPoint c) ''nfs'' options]
       in (case os_MkdirAll E log (nfs_mountPoint c) of
             Some err \<Rightarrow>
               (Return NoValue
                  (Some (''failed to create mount point '' @ nfs_mountPoint c @ '': '' @
                         os_msg err)), c, log1)
           | None \<Rightarrow>
               (case sys_Mount E log1 source (nfs_mountPoint c) ''nfs'' options of
                  Some err \<Rightarrow>
                    (Return NoValue
                       (Some (''failed to mount NFS share '' @ source @ '' to '' @
                              nfs_mountPoint c @ '': '' @ err)), c, log2)
                | None \<Rightarrow>
                    (Return NoValue None, c\<lparr>nfs_mounted := True, nfs_connected := True\<rparr>,
                     log2))))"

definition nfs_Disconnect :: "os_env \<Rightarrow> nfs_Client \<times> log \<Rightarrow> result \<times> nfs_Client \<times> log" where
  "nfs_Disconnect E = (\<lambda>(c, log).
     if nfs_mounted c then
       (case sys_Unmount E log (nfs_mountPoint c) of
          Some err \<Rightarrow>
            (Return NoValue
               (Some (''failed to unmount NFS share from '' @ nfs_mountPoint c @ '': '' @ err)),
             c, log @ [SysUnmount (nfs_mountPoint c)])
        | None \<Rightarrow>
            (Return NoValue None, c\<lparr>nfs_mounted := False, nfs_connected := False\<rparr>,
             log @ [SysUnmount (nfs_mountPoint c)]))
     else (Return NoValue None, c\<lparr>nfs_connected := False\<rparr>, log))"

definition nfs_TestConnection ::
  "os_env \<Rightarrow> nfs_Client \<times> log \<Rightarrow> result \<times> nfs_Client \<times> log" where
  "nfs_TestConnection E = (\<lambda>(c, log).
     if \<not> nfs_IsConnected E log c then (not_connected, c, log)
     else
       (case os_Stat E log (nfs_mountPoint c) of
          Inl err \<Rightarrow> (Return NoValue (Some (os_msg err)), c, log @ [OsStat (nfs_mountPoint c)])
        | Inr info \<Rightarrow> (Return NoValue None, c, log @ [OsStat (nfs_mountPoint c)])))"

definition nfs_ReadFile ::
  "os_env \<Rightarrow> string \<Rightarrow> nfs_Client \<times> log \<Rightarrow> result \<times> nfs_Client \<times> log" where
  "nfs_ReadFile E path = (\<lambda>(c, log).
     if \<not> nfs_IsConnected E log c then (not_connected, c, log)
     else
       let fullPath = nfs_resolvePath (nfs_mountPoint c) path
       in (case os_Open E log fullPath of
             Inl err \<Rightarrow>
               (Return NoValue
                  (Some (''failed to open NFS file '' @ fullPath @ '': '' @ os_msg err)),
                c, log @ [OsOpen fullPath])
           | Inr file \<Rightarrow> (Return (Reader file) None, c, log @ [OsOpen fullPath])))"

definition nfs_WriteFile ::
  "os_env \<Rightarrow> string \<Rightarrow> reader \<Rightarrow> nfs_Client \<times> log \<Rightarrow> result \<times> nfs_Client \<times> log" where
  "nfs_WriteFile E path data = (\<lambda>(c, log).
     if \<not> nfs_IsConnected E log c then (not_connected, c, log)
     else
       let fullPath = nfs_resolvePath (nfs_mountPoint c) path;
           dir = Dir fullPath;
           log1 = log @ [OsMkdirAll dir];
           log2 = log1 @ [OsCreate fullPath]
       in (case os_MkdirAll E log dir of
             Some err \<Rightarrow>
               (Return NoValue
                  (Some (''failed to create directory '' @ dir @ '': '' @ os_msg err)), c, log1)
           | None \<Rightarrow>
               (case os_Create E log1 fullPath of
                  Inl err \<Rightarrow>
                    (Return NoValue
                       (Some (''failed to create NFS file '' @ fullPath @ '': '' @ os_msg err)),
                     c, log2)
                | Inr file \<Rightarrow>
                    (case io_Copy E log2 file data of
                       Some err \<Rightarrow>
                         (Return NoValue
                            (Some (''failed to write NFS file '' @ fullPath @ '': '' @ err)),
                          c, log2 @ [IoCopy file data, Close file])
                     | None \<Rightarrow>
                         (Return NoValue None, c, log2 @ [IoCopy file data, Close file])))))"

definition nfs_GetFileInfo ::
  "os_env \<Rightarrow> string \<Rightarrow> nfs_Client \<times> log \<Rightarrow> result \<times> nfs_Client \<times> log" where
  "nfs_GetFileInfo E path = (\<lambda>(c, log).
     if \<not> nfs_IsConnected E log c then (not_connected, c, log)
     else
       let fullPath = nfs_resolvePath (nfs_mountPoint c) path
       in (case os_Stat E log fullPath of
             Inl err \<Rightarrow>
               (Return NoValue
                  (Some (''failed to stat NFS file '' @ fullPath @ '': '' @ os_msg err)),
                c, log @ [OsStat fullPath])
           | Inr stat \<Rightarrow>
               (Return (Info (stat_FileInfo stat path)) None, c, log @ [OsStat fullPath])))"

definition nfs_ListDirectory ::
  "os_env \<Rightarrow> string \<Rightarrow> nfs_Client \<times> log \<Rightarrow> result \<times> nfs_Client \<times> log" where
  "nfs_ListDirectory E path = (\<lambda>(c, log).
     if \<not> nfs_IsConnected E log c then (not_connected, c, log)
     else
       let fullPath = nfs_resolvePath (nfs_mountPoint c) path
       in (case os_ReadDir E log fullPath of
             Inl err \<Rightarrow>
               (Return NoValue
                  (Some (''failed to list NFS directory '' @ fullPath @ '': '' @ os_msg err)),
                c, log @ [OsReadDir fullPath])
           | Inr entries \<Rightarrow>
               (Return (Files (os_entries path entries)) None, c, log @ [OsReadDir fullPath])))"

definition nfs_FileExists ::
  "os_env \<Rightarrow> string \<Rightarrow> nfs_Client \<times> log \<Rightarrow> result \<times> nfs_Client \<times> log" where
  "nfs_FileExists E path = (\<lambda>(c, log).
     if \<not> nfs_IsConnected E log c then (Return (Bool False) (Some ''not connected''), c, log)
     else
       let fullPath = nfs_resolvePath (nfs_mountPoint c) path
       in (case os_Stat E log fullPath of
             Inl err \<Rightarrow>
               if os_notexist err then (Return (Bool False) None, c, log @ [OsStat fullPath])
               else
                 (Return (Bool False)
                    (Some (''failed to check NFS file existence '' @ fullPath @ '': '' @
                           os_msg err)),
                  c, log @ [OsStat fullPath])
           | Inr stat \<Rightarrow> (Return (Bool True) None, c, log @ [OsStat fullPath])))"

definition nfs_CreateDirectory ::
  "os_env \<Rightarrow> string \<Rightarrow> nfs_Client \<times> log \<Rightarrow> result \<times> nfs_Client \<times> log" where
  "nfs_CreateDirectory E path = (\<lambda>(c, log).
     if \<not> nfs_IsConnected E log c then (not_connected, c, log)
     else
       let fullPath = nfs_resolvePath (nfs_mountPoint c) path
       in (case os_MkdirAll E log fullPath of
             Some err \<Rightarrow>
               (Return NoValue
                  (Some (''failed to create NFS directory '' @ fullPath @ '': '' @ os_msg err)),
                c, log @ [OsMkdirAll fullPath])
           | None \<Rightarrow> (Return NoValue None, c, log @ [OsMkdirAll fullPath])))"

definition nfs_DeleteDirectory ::
  "os_env \<Rightarrow> string \<Rightarrow> nfs_Client \<times> log \<Rightarrow> result \<times> nfs_Client \<times> log" where
  "nfs_DeleteDirectory E path = (\<lambda>(c, log).
     if \<not> nfs_IsConnected E log c then (not_connected, c, log)
     else
       let fullPath = nfs_resolvePath (nfs_mountPoint c) path
       in (case os_RemoveAll E log fullPath of
             Some err \<Rightarrow>
               (Return NoValue
                  (Some (''failed to delete NFS directory '' @ fullPath @ '': '' @ os_msg err)),
                c, log @ [OsRemoveAll fullPath])
           | None \<Rightarrow> (Return NoValue None, c, log @ [OsRemoveAll fullPath])))"

definition nfs_DeleteFile ::
  "os_env \<Rightarrow> string \<Rightarrow> nfs_Client \<times> log \<Rightarrow> result \<times> nfs_Client \<times> log" where
  "nfs_DeleteFile E path = (\<lambda>(c, log).
     if \<not> nfs_IsConnected E log c then (not_connected, c, log)
     else
       let fullPath = nfs_resolvePath (nfs_mountPoint c) path
       in (case os_Remove E log fullPath of
             Some err \<Rightarrow>
               (Return NoValue
                  (Some (''failed to delete NFS file '' @ fullPath @ '': '' @ os_msg err)),
                c, log @ [OsRemove fullPath])
           | None \<Rightarrow> (Return NoValue None, c, log @ [OsRemove fullPath])))"

definition nfs_CopyFile ::
  "os_env \<Rightarrow> string \<Rightarrow> string \<Rightarrow> nfs_Client \<times> log \<Rightarrow> result \<times> nfs_Client \<times> log" where
  "nfs_CopyFile E srcPath dstPath = (\<lambda>(c, log).
     if \<not> nfs_IsConnected E log c then (not_connected, c, log)
     else
       let srcFullPath = nfs_resolvePath (nfs_mountPoint c) srcPath;
           dstFullPath = nfs_resolvePath (nfs_mountPoint c) dstPath;
           (r, log') = os_copy E srcFullPath dstFullPath log
       in (r, c, log'))"

section \<open>The SMB adapter\<close>

record smb_Config =
  smb_Host :: string
  smb_Port :: int
  smb_Share :: string
  smb_Username :: string
  smb_Password :: string
  smb_Domain :: string

text \<open>The three handles are pointers in the source: \<open>None\<close> is \<open>nil\<close>.\<close>

record smb_Client =
  smb_conn :: "handle option"
  smb_session :: "handle option"
  smb_share :: "handle option"
  smb_config :: smb_Config

record smb_env =
  smb_Open :: "log \<Rightarrow> handle \<Rightarrow> string \<Rightarrow> string + handle"
  smb_Create :: "log \<Rightarrow> handle \<Rightarrow> string \<Rightarrow> string + handle"
  smb_Stat :: "log \<Rightarrow> handle \<Rightarrow> string \<Rightarrow> string + stat_info"
  smb_ReadDir :: "log \<Rightarrow> handle \<Rightarrow> string \<Rightarrow> string + stat_info list"
  smb_Mkdir :: "log \<Rightarrow> handle \<Rightarrow> string \<Rightarrow> string option"
  smb_Remove :: "log \<Rightarrow> handle \<Rightarrow> string \<Rightarrow> string option"
  smb_Umount :: "log \<Rightarrow> handle \<Rightarrow> string option"
  smb_Logoff :: "log \<Rightarrow> handle \<Rightarrow> string option"
  conn_Close :: "log \<Rightarrow> handle \<Rightarrow> string option"
  smb_Copy :: "log \<Rightarrow> handle \<Rightarrow> reader \<Rightarrow> string option"

definition NewSMBClient :: "smb_Config \<Rightarrow> smb_Client" where
  "NewSMBClient config =
     \<lparr> smb_conn = None, smb_session = None, smb_share = None, smb_config = config \<rparr>"

text \<open>
  \<open>Disconnect\<close> releases each handle that is present, collects the errors, and reports
  them together (\<open>%v\<close> of a slice of errors prints the messages between brackets,
  separated by spaces).
\<close>

fun join_space :: "string list \<Rightarrow> string" where
  "join_space [] = []"
| "join_space [x] = x"
| "join_space (x # y # ys) = x @ '' '' @ join_space (y # ys)"

definition smb_Disconnect :: "smb_env \<Rightarrow> smb_Client \<times> log \<Rightarrow> result \<times> smb_Client \<times> log" where
  "smb_Disconnect E = (\<lambda>(c, log).
     let (errs1, log1) =
           (case smb_share c of
              None \<Rightarrow> ([], log)
            | Some share \<Rightarrow>
                (case smb_Umount E log share of
                   Some err \<Rightarrow> ([''failed to unmount share: '' @ err], log @ [SmbUmount share])
                 | None \<Rightarrow> ([], log @ [SmbUmount share])));
         (errs2, log2) =
           (case smb_session c of
              None \<Rightarrow> (errs1, log1)
            | Some session \<Rightarrow>
                (case smb_Logoff E log1 session of
                   Some err \<Rightarrow>
                     (errs1 @ [''failed to logoff session: '' @ err], log1 @ [SmbLogoff session])
                 | None \<Rightarrow> (errs1, log1 @ [SmbLogoff session])));
         (errs3, log3) =
           (case smb_conn c of
              None \<Rightarrow> (errs2, log2)
            | Some conn \<Rightarrow>
                (case conn_Close E log2 conn of
                   Some err \<Rightarrow>
                     (errs2 @ [''failed to close connection: '' @ err], log2 @ [ConnClose conn])
                 | None \<Rightarrow> (errs2, log2 @ [ConnClose conn])));
         c' = c\<lparr>smb_share := None, smb_session := None, smb_conn := None\<rparr>
     in if length errs3 > 0 then
          (Return NoValue (Some (''errors closing SMB client: ['' @ join_space errs3 @ '']'')),
           c', log3)
        else (Return NoValue None, c', log3))"

definition smb_IsConnected :: "smb_Client \<Rightarrow> bool" where
  "smb_IsConnected c = (smb_share c \<noteq> None \<and> smb_session c \<noteq> None \<and> smb_conn c \<noteq> None)"

definition smb_TestConnection ::
  "smb_env \<Rightarrow> smb_Client \<times> log \<Rightarrow> result \<times> smb_Client \<times> log" where
  "smb_TestConnection E = (\<lambda>(c, log).
     if \<not> smb_IsConnected c then (not_connected, c, log)
     else
       let share = the (smb_share c)
       in (case smb_ReadDir E log share ''.'' of
             Inl err \<Rightarrow> (Return NoValue (Some err), c, log @ [SmbReadDir share ''.''])
           | Inr entries \<Rightarrow> (Return NoValue None, c, log @ [SmbReadDir share ''.''])))"

definition smb_ReadFile ::
  "smb_env \<Rightarrow> string \<Rightarrow> smb_Client \<times> log \<Rightarrow> result \<times> smb_Client \<times> log" where
  "smb_ReadFile E path = (\<lambda>(c, log).
     if \<not> smb_IsConnected c then (not_connected, c, log)
     else
       let share = the (smb_share c)
       in (case smb_Open E log share path of
             Inl err \<Rightarrow>
               (Return NoValue (Some (''failed to open SMB file '' @ path @ '': '' @ err)),
                c, log @ [SmbOpen share path])
           | Inr file \<Rightarrow> (Return (Reader file) None, c, log @ [SmbOpen share path])))"

definition smb_WriteFile ::
  "smb_env \<Rightarrow> string \<Rightarrow> reader \<Rightarrow> smb_Client \<times> log \<Rightarrow> result \<times> smb_Client \<times> log" where
  "smb_WriteFile E path data = (\<lambda>(c, log).
     if \<not> smb_IsConnected c then (not_connected, c, log)
     else
       let share = the (smb_share c);
           log1 = log @ [SmbCreate share path]
       in (case smb_Create E log share path of
             Inl err \<Rightarrow>
               (Return NoValue (Some (''failed to create SMB file '' @ path @ '': '' @ err)),
                c, log1)
           | Inr file \<Rightarrow>
               (case smb_Copy E log1 file data of
                  Some err \<Rightarrow>
                    (Return NoValue (Some (''failed to write SMB file '' @ path @ '': '' @ err)),
                     c, log1 @ [IoCopy file data, Close file])
                | None \<Rightarrow> (Return NoValue None, c, log1 @ [IoCopy file data, Close file]))))"

definition smb_GetFileInfo ::
  "smb_env \<Rightarrow> string \<Rightarrow> smb_Client \<times> log \<Rightarrow> result \<times> smb_Client \<times> log" where
  "smb_GetFileInfo E path = (\<lambda>(c, log).
     if \<not> smb_IsConnected c then (not_connected, c, log)
     else
       let share = the (smb_share c)
       in (case smb_Stat E log share path of
             Inl err \<Rightarrow>
               (Return NoValue (Some (''failed to stat SMB file '' @ path @ '': '' @ err)),
                c, log @ [SmbStat share path])
           | Inr stat \<Rightarrow>
               (Return (Info (stat_FileInfo stat path)) None, c, log @ [SmbStat share path])))"

definition smb_ListDirectory ::
  "smb_env \<Rightarrow> string \<Rightarrow> smb_Client \<times> log \<Rightarrow> result \<times> smb_Client \<times> log" where
  "smb_ListDirectory E path = (\<lambda>(c, log).
     if \<not> smb_IsConnected c then (not_connected, c, log)
     else
       let share = the (smb_share c)
       in (case smb_ReadDir E log share path of
             Inl err \<Rightarrow>
               (Return NoValue (Some (''failed to list SMB directory '' @ path @ '': '' @ err)),
                c, log @ [SmbReadDir share path])
           | Inr entries \<Rightarrow>
               (Return
                  (Files (map (\<lambda>entry. stat_FileInfo entry (path @ ''/'' @ st_Name entry)) entries))
                  None,
                c, log @ [SmbReadDir share path])))"

text \<open>\<open>isNotExistError\<close> compares the whole message of the error.\<close>

definition isNotExistError :: "string option \<Rightarrow> bool" where
  "isNotExistError err =
     (err \<noteq> None \<and>
      (the err = ''file does not exist'' \<or> the err = ''no such file or directory''))"

definition smb_FileExists ::
  "smb_env \<Rightarrow> string \<Rightarrow> smb_Client \<times> log \<Rightarrow> result \<times> smb_Client \<times> log" where
  "smb_FileExists E path = (\<lambda>(c, log).
     if \<not> smb_IsConnected c then (Return (Bool False) (Some ''not connected''), c, log)
     else
       let share = the (smb_share c)
       in (case smb_Stat E log share path of
             Inl err \<Rightarrow>
               if isNotExistError (Some err) then
                 (Return (Bool False) None, c, log @ [SmbStat share path])
               else
                 (Return (Bool False)
                    (Some (''failed to check SMB file existence '' @ path @ '': '' @ err)),
                  c, log @ [SmbStat share path])
           | Inr stat \<Rightarrow> (Return (Bool True) None, c, log @ [SmbStat share path])))"

definition smb_CreateDirectory ::
  "smb_env \<Rightarrow> string \<Rightarrow> smb_Client \<times> log \<Rightarrow> result \<times> smb_Client \<times> log" where
  "smb_CreateDirectory E path = (\<lambda>(c, log).
     if \<not> smb_IsConnected c then (not_connected, c, log)
     else
       let share = the (smb_share c)
       in (case smb_Mkdir E log share path of
             Some err \<Rightarrow>
               (Return NoValue (Some (''failed to create SMB directory '' @ path @ '': '' @ err)),
                c, log @ [SmbMkdir share path])
           | None \<Rightarrow> (Return NoValue None, c, log @ [SmbMkdir share path])))"

definition smb_DeleteDirectory ::
  "smb_env \<Rightarrow> string \<Rightarrow> smb_Client \<times> log \<Rightarrow> result \<times> smb_Client \<times> log" where
  "smb_DeleteDirectory E path = (\<lambda>(c, log).
     if \<not> smb_IsConnected c then (not_connected, c, log)
     else
       let share = the (smb_share c)
       in (case smb_Remove E log share path of
             Some err \<Rightarrow>
               (Return NoValue (Some (''failed to delete SMB directory '' @ path @ '': '' @ err)),
                c, log @ [SmbRemove share path])
           | None \<Rightarrow> (Return NoValue None, c, log @ [SmbRemove share path])))"

definition smb_DeleteFile ::
  "smb_env \<Rightarrow> string \<Rightarrow> smb_Client \<times> log \<Rightarrow> result \<times> smb_Client \<times> log" where
  "smb_DeleteFile E path = (\<lambda>(c, log).
     if \<not> smb_IsConnected c then (not_connected, c, log)
     else
       let share = the (smb_share c)
       in (case smb_Remove E log share path of
             Some err \<Rightarrow>
               (Return NoValue (Some (''failed to delete SMB file '' @ path @ '': '' @ err)),
                c, log @ [SmbRemove share path])
           | None \<Rightarrow> (Return NoValue None, c, log @ [SmbRemove share path])))"

definition smb_CopyFile ::
  "smb_env \<Rightarrow> string \<Rightarrow> string \<Rightarrow> smb_Client \<times> log \<Rightarrow> result \<times> smb_Client \<times> log" where
  "smb_CopyFile E srcPath dstPath = (\<lambda>(c, log).
     if \<not> smb_IsConnected c then (not_connected, c, log)
     else
       let share = the (smb_share c);
           log1 = log @ [SmbOpen share srcPath];
           log2 = log1 @ [SmbCreate share dstPath]
       in (case smb_Open E log share srcPath of
             Inl err \<Rightarrow>
               (Return NoValue
                  (Some (''failed to open source file '' @ srcPath @ '': '' @ err)), c, log1)
           | Inr srcFile \<Rightarrow>
               (case smb_Create E log1 share dstPath of
                  Inl err \<Rightarrow>
                    (Return NoValue
                       (Some (''failed to create destination file '' @ dstPath @ '': '' @ err)),
                     c, log2 @ [Close srcFile])
                | Inr dstFile \<Rightarrow>
                    (case smb_Copy E log2 dstFile (Stream srcFile) of
                       Some err \<Rightarrow>
                         (Return NoValue
                            (Some (''failed to copy file from '' @ srcPath @ '' to '' @ dstPath @
                                   '': '' @ err)),
                          c, log2 @ [IoCopy dstFile (Stream srcFile), Close dstFile, Close srcFile])
                     | None \<Rightarrow>
                         (Return NoValue None, c,
                          log2 @ [IoCopy dstFile (Stream srcFile), Close dstFile,
                                  Close srcFile])))))"

section \<open>The FTP adapter: state and operations\<close>

text \<open>\<open>client\<close> is a pointer to the library's server connection: \<open>None\<close> is \<open>nil\<close>.\<close>

record ftp_Client =
  ftp_config :: ftp_Config
  ftp_client :: "handle option"
  ftp_connected :: bool

record ftp_env =
  ftp_Quit :: "log \<Rightarrow> handle \<Rightarrow> string option"
  ftp_CurrentDir :: "log \<Rightarrow> handle \<Rightarrow> string + string"
  ftp_Retr :: "log \<Rightarrow> handle \<Rightarrow> string \<Rightarrow> string + handle"
  ftp_Stor :: "log \<Rightarrow> handle \<Rightarrow> string \<Rightarrow> reader \<Rightarrow> string option"
  ftp_FileSize :: "log \<Rightarrow> handle \<Rightarrow> string \<Rightarrow> string + int64"
  ftp_List :: "log \<Rightarrow> handle \<Rightarrow> string \<Rightarrow> string + ftp_Entry list"
  ftp_MakeDir :: "log \<Rightarrow> handle \<Rightarrow> string \<Rightarrow> string option"
  ftp_RemoveDir :: "log \<Rightarrow> handle \<Rightarrow> string \<Rightarrow> string option"
  ftp_Delete :: "log \<Rightarrow> handle \<Rightarrow> string \<Rightarrow> string option"
  ftp_Now :: "log \<Rightarrow> time"

definition NewFTPClient :: "ftp_Config \<Rightarrow> ftp_Client" where
  "NewFTPClient config = \<lparr> ftp_config = config, ftp_client = None, ftp_connected = False \<rparr>"

definition ftp_Disconnect :: "ftp_env \<Rightarrow> ftp_Client \<times> log \<Rightarrow> result \<times> ftp_Client \<times> log" where
  "ftp_Disconnect E = (\<lambda>(c, log).
     (case ftp_client c of
        Some conn \<Rightarrow>
          (Return NoValue (ftp_Quit E log conn),
           c\<lparr>ftp_client := None, ftp_connected := False\<rparr>, log @ [FtpQuit conn])
      | None \<Rightarrow> (Return NoValue None, c\<lparr>ftp_connected := False\<rparr>, log)))"

definition ftp_IsConnected :: "ftp_Client \<Rightarrow> bool" where
  "ftp_IsConnected c = (ftp_connected c \<and> ftp_client c \<noteq> None)"

definition ftp_TestConnection ::
  "ftp_env \<Rightarrow> ftp_Client \<times> log \<Rightarrow> result \<times> ftp_Client \<times> log" where
  "ftp_TestConnection E = (\<lambda>(c, log).
     if \<not> ftp_IsConnected c then (not_connected, c, log)
     else
       let conn = the (ftp_client c)
       in (case ftp_CurrentDir E log conn of
             Inl err \<Rightarrow> (Return NoValue (Some err), c, log @ [FtpCurrentDir conn])
           | Inr dir \<Rightarrow> (Return NoValue None, c, log @ [FtpCurrentDir conn])))"

definition ftp_ReadFile ::
  "ftp_env \<Rightarrow> string \<Rightarrow> ftp_Client \<times> log \<Rightarrow> result \<times> ftp_Client \<times> log" where
  "ftp_ReadFile E path = (\<lambda>(c, log).
     if \<not> ftp_IsConnected c then (not_connected, c, log)
     else
       let conn = the (ftp_client c);
           fullPath = ftp_resolvePath (ftp_config c) path
       in (case ftp_Retr E log conn fullPath of
             Inl err \<Rightarrow>
               (Return NoValue
                  (Some (''failed to retrieve FTP file '' @ fullPath @ '': '' @ err)),
                c, log @ [FtpRetr conn fullPath])
           | Inr resp \<Rightarrow> (Return (Reader resp) None, c, log @ [FtpRetr conn fullPath])))"

text \<open>The error of the \<open>MakeDir\<close> call before a store is discarded.\<close>

definition ftp_make_parent :: "handle \<Rightarrow> string \<Rightarrow> log \<Rightarrow> log" where
  "ftp_make_parent conn fullPath log =
     (let dir = Dir fullPath
      in if dir \<noteq> ''.'' \<and> dir \<noteq> ''/'' then log @ [FtpMakeDir conn dir] else log)"

definition ftp_WriteFile ::
  "ftp_env \<Rightarrow> string \<Rightarrow> reader \<Rightarrow> ftp_Client \<times> log \<Rightarrow> result \<times> ftp_Client \<times> log" where
  "ftp_WriteFile E path data = (\<lambda>(c, log).
     if \<not> ftp_IsConnected c then (not_connected, c, log)
     else
       let conn = the (ftp_client c);
           fullPath = ftp_resolvePath (ftp_config c) path;
           log1 = ftp_make_parent conn fullPath log
       in (case ftp_Stor E log1 conn fullPath data of
             Some err \<Rightarrow>
               (Return NoValue (Some (''failed to store FTP file '' @ fullPath @ '': '' @ err)),
                c, log1 @ [FtpStor conn fullPath data])
           | None \<Rightarrow> (Return NoValue None, c, log1 @ [FtpStor conn fullPath data])))"

definition ftp_GetFileInfo ::
  "ftp_env \<Rightarrow> string \<Rightarrow> ftp_Client \<times> log \<Rightarrow> result \<times> ftp_Client \<times> log" where
  "ftp_GetFileInfo E path = (\<lambda>(c, log).
     if \<not> ftp_IsConnected c then (not_connected, c, log)
     else
       let conn = the (ftp_client c);
           fullPath = ftp_resolvePath (ftp_config c) path;
           log1 = log @ [FtpFileSize conn fullPath]
       in (case ftp_FileSize E log conn fullPath of
             Inl err \<Rightarrow>
               (Return NoValue
                  (Some (''failed to get FTP file info '' @ fullPath @ '': '' @ err)), c, log1)
           | Inr sz \<Rightarrow>
               let modTime = ftp_Now E log1;
                   isDir = (case ftp_List E log1 conn fullPath of Inl listErr \<Rightarrow> False
                            | Inr entries \<Rightarrow> True)
               in (Return
                     (Info \<lparr> Name = Base path, Size = sz, ModTime = modTime, IsDir = isDir,
                             Mode = 420, Path = path \<rparr>) None,
                   c, log1 @ [FtpList conn fullPath])))"

definition ftp_ListDirectory ::
  "ftp_env \<Rightarrow> string \<Rightarrow> ftp_Client \<times> log \<Rightarrow> result \<times> ftp_Client \<times> log" where
  "ftp_ListDirectory E path = (\<lambda>(c, log).
     if \<not> ftp_IsConnected c then (not_connected, c, log)
     else
       let conn = the (ftp_client c);
           fullPath = ftp_resolvePath (ftp_config c) path
       in (case ftp_List E log conn fullPath of
             Inl err \<Rightarrow>
               (Return NoValue
                  (Some (''failed to list FTP directory '' @ fullPath @ '': '' @ err)),
                c, log @ [FtpList conn fullPath])
           | Inr entries \<Rightarrow>
               (Return (Files (map (ftp_entry_info path) entries)) None,
                c, log @ [FtpList conn fullPath])))"

definition ftp_FileExists ::
  "ftp_env \<Rightarrow> string \<Rightarrow> ftp_Client \<times> log \<Rightarrow> result \<times> ftp_Client \<times> log" where
  "ftp_FileExists E path = (\<lambda>(c, log).
     if \<not> ftp_IsConnected c then (Return (Bool False) (Some ''not connected''), c, log)
     else
       let conn = the (ftp_client c);
           fullPath = ftp_resolvePath (ftp_config c) path;
           log1 = log @ [FtpFileSize conn fullPath]
       in (case ftp_FileSize E log conn fullPath of
             Inl err \<Rightarrow>
               let dir = Dir fullPath;
                   name = Base fullPath
               in (case ftp_List E log1 conn dir of
                     Inl err \<Rightarrow>
                       (Return (Bool False)
                          (Some (''failed to check FTP file existence '' @ fullPath @ '': '' @
                                 err)),
                        c, log1 @ [FtpList conn dir])
                   | Inr entries \<Rightarrow>
                       (Return (Bool (\<exists>entry \<in> set entries. entry_Name entry = name)) None,
                        c, log1 @ [FtpList conn dir]))
           | Inr sz \<Rightarrow> (Return (Bool True) None, c, log1)))"

definition ftp_CreateDirectory ::
  "ftp_env \<Rightarrow> string \<Rightarrow> ftp_Client \<times> log \<Rightarrow> result \<times> ftp_Client \<times> log" where
  "ftp_CreateDirectory E path = (\<lambda>(c, log).
     if \<not> ftp_IsConnected c then (not_connected, c, log)
     else
       let conn = the (ftp_client c);
           fullPath = ftp_resolvePath (ftp_config c) path
       in (case ftp_MakeDir E log conn fullPath of
             Some err \<Rightarrow>
               (Return NoValue
                  (Some (''failed to create FTP directory '' @ fullPath @ '': '' @ err)),
                c, log @ [FtpMakeDir conn fullPath])
           | None \<Rightarrow> (Return NoValue None, c, log @ [FtpMakeDir conn fullPath])))"

definition ftp_DeleteDirectory ::
  "ftp_env \<Rightarrow> string \<Rightarrow> ftp_Client \<times> log \<Rightarrow> result \<times> ftp_Client \<times> log" where
  "ftp_DeleteDirectory E path = (\<lambda>(c, log).
     if \<not> ftp_IsConnected c then (not_connected, c, log)
     else
       let conn = the (ftp_client c);
           fullPath = ftp_resolvePath (ftp_config c) path
       in (case ftp_RemoveDir E log conn fullPath of
             Some err \<Rightarrow>
               (Return NoValue
                  (Some (''failed to delete FTP directory '' @ fullPath @ '': '' @ err)),
                c, log @ [FtpRemoveDir conn fullPath])
           | None \<Rightarrow> (Return NoValue None, c, log @ [FtpRemoveDir conn fullPath])))"

definition ftp_DeleteFile ::
  "ftp_env \<Rightarrow> string \<Rightarrow> ftp_Client \<times> log \<Rightarrow> result \<times> ftp_Client \<times> log" where
  "ftp_DeleteFile E path = (\<lambda>(c, log).
     if \<not> ftp_IsConnected c then (not_connected, c, log)
     else
       let conn = the (ftp_client c);
           fullPath = ftp_resolvePath (ftp_config c) path
       in (case ftp_Delete E log conn fullPath of
             Some err \<Rightarrow>
               (Return NoValue (Some (''failed to delete FTP file '' @ fullPath @ '': '' @ err)),
                c, log @ [FtpDelete conn fullPath])
           | None \<Rightarrow> (Return NoValue None, c, log @ [FtpDelete conn fullPath])))"

definition ftp_CopyFile ::
  "ftp_env \<Rightarrow> string \<Rightarrow> string \<Rightarrow> ftp_Client \<times> log \<Rightarrow> result \<times> ftp_Client \<times> log" where
  "ftp_CopyFile E srcPath dstPath = (\<lambda>(c, log).
     if \<not> ftp_IsConnected c then (not_connected, c, log)
     else
       let conn = the (ftp_client c);
           srcFullPath = ftp_resolvePath (ftp_config c) srcPath;
           dstFullPath = ftp_resolvePath (ftp_config c) dstPath;
           log1 = log @ [FtpRetr conn srcFullPath]
       in (case ftp_Retr E log conn srcFullPath of
             Inl err \<Rightarrow>
               (Return NoValue
                  (Some (''failed to retrieve source file '' @ srcFullPath @ '': '' @ err)),
                c, log1)
           | Inr resp \<Rightarrow>
               let log2 = ftp_make_parent conn dstFullPath log1
               in (case ftp_Stor E log2 conn dstFullPath (Stream resp) of
                     Some err \<Rightarrow>
                       (Return NoValue
                          (Some (''failed to store destination file '' @ dstFullPath @ '': '' @
                                 err)),
                        c, log2 @ [FtpStor conn dstFullPath (Stream resp), Close resp])
                   | None \<Rightarrow>
                       (Return NoValue None, c,
                        log2 @ [FtpStor conn dstFullPath (Stream resp), Close resp]))))"

section \<open>Helpers of the WebDAV adapter: splitting, slicing, numbers\<close>

text \<open>
  \<open>strings.Split(s, sep)\<close> for a non-empty separator: the pieces between the
  non-overlapping occurrences of \<open>sep\<close>, found from the left; \<open>cur\<close> is the piece being
  read, last character first.
\<close>

fun split_from :: "string \<Rightarrow> string \<Rightarrow> string \<Rightarrow> string list" where
  "split_from sep cur [] = [rev cur]"
| "split_from sep cur (c # cs) =
     (if HasPrefix (c # cs) sep then rev cur # split_from sep [] (drop (length sep - 1) cs)
      else split_from sep (c # cur) cs)"

definition Split :: "string \<Rightarrow> string \<Rightarrow> string list" where
  "Split s sep = split_from sep [] s"

text \<open>
  The slice expression \<open>s[lo:hi]\<close> panics unless \<open>lo \<le> hi \<le> len(s)\<close>; \<open>None\<close> is the
  panic.
\<close>

definition slice :: "string \<Rightarrow> nat \<Rightarrow> nat \<Rightarrow> string option" where
  "slice s lo hi = (if lo \<le> hi \<and> hi \<le> length s then Some (take (hi - lo) (drop lo s)) else None)"

text \<open>
  \<open>strconv.ParseInt(s, 10, 64)\<close>: an optional sign and at least one decimal digit,
  nothing else; a value outside the range of \<open>int64\<close> is an error.
\<close>

definition is_digit :: "char \<Rightarrow> bool" where
  "is_digit c = (48 \<le> (of_char c :: nat) \<and> (of_char c :: nat) \<le> 57)"

definition digits_value :: "string \<Rightarrow> int" where
  "digits_value ds = foldl (\<lambda>n c. 10 * n + (of_char c - 48)) 0 ds"

definition ParseInt :: "string \<Rightarrow> int64 option" where
  "ParseInt s =
     (let neg = (s \<noteq> [] \<and> hd s = CHR ''-'');
          ds = (if s \<noteq> [] \<and> (hd s = CHR ''+'' \<or> hd s = CHR ''-'') then tl s else s);
          n = (if neg then - digits_value ds else digits_value ds)
      in if ds = [] \<or> \<not> list_all is_digit ds then None
         else if n < - (2 ^ 63) \<or> 2 ^ 63 \<le> n then None
         else Some (word_of_int n))"

text \<open>The verb \<open>%d\<close>: a number in decimal.\<close>

fun nat_digits :: "nat \<Rightarrow> string" where
  "nat_digits n =
     (if n < 10 then [char_of (48 + n)] else nat_digits (n div 10) @ [char_of (48 + n mod 10)])"

declare nat_digits.simps [simp del]

definition itoa :: "int \<Rightarrow> string" where
  "itoa i = (if i < 0 then ''-'' @ nat_digits (nat (- i)) else nat_digits (nat i))"

section \<open>The WebDAV adapter\<close>

text \<open>
  A \<open>url.URL\<close>, as far as the adapter touches it. Parsing a string into a URL and
  rendering one (\<open>url.Parse\<close>, \<open>URL.String\<close>) belong to package \<open>net/url\<close>; they are
  taken from the environment.
\<close>

record URL =
  url_Scheme :: string
  url_Host :: string
  url_Path :: string
  url_RawPath :: string
  url_RawQuery :: string
  url_Fragment :: string

record webdav_Config =
  webdav_URL :: string
  webdav_Username :: string
  webdav_Password :: string
  webdav_Path :: string

text \<open>\<open>baseURL\<close> is a pointer: \<open>None\<close> is \<open>nil\<close>, what \<open>url.Parse\<close> returns with an error.\<close>

record webdav_Client =
  webdav_config :: webdav_Config
  webdav_baseURL :: "URL option"
  webdav_connected :: bool

record response =
  resp_StatusCode :: int
  resp_Header :: "(string \<times> string) list"
  resp_Body :: handle
  resp_ReadAll :: "string + string"

record http_env =
  url_String :: "URL \<Rightarrow> string"
  http_NewRequest :: "string \<Rightarrow> string \<Rightarrow> string option"
  http_Do :: "log \<Rightarrow> request \<Rightarrow> string + response"
  time_Parse :: "string \<Rightarrow> string \<Rightarrow> time option"
  time_Now :: "log \<Rightarrow> time"

definition Header_Get :: "(string \<times> string) list \<Rightarrow> string \<Rightarrow> string" where
  "Header_Get h k = (case map_of h k of None \<Rightarrow> [] | Some v \<Rightarrow> v)"

text \<open>
  \<open>NewWebDAVClient\<close>: the error of \<open>url.Parse\<close> is discarded; assigning the path through
  a \<open>nil\<close> pointer panics (\<open>Inl\<close>).
\<close>

definition NewWebDAVClient :: "(string \<Rightarrow> URL option) \<Rightarrow> webdav_Config \<Rightarrow> string + webdav_Client" where
  "NewWebDAVClient url_Parse config =
     (let baseURL = url_Parse (webdav_URL config)
      in if webdav_Path config \<noteq> [] \<and> webdav_Path config \<noteq> ''/'' then
           (case baseURL of
              None \<Rightarrow> Inl ''nil pointer dereference''
            | Some u \<Rightarrow>
                Inr \<lparr> webdav_config = config,
                      webdav_baseURL = Some (u\<lparr>url_Path := webdav_Path config\<rparr>),
                      webdav_connected = False \<rparr>)
         else Inr \<lparr> webdav_config = config, webdav_baseURL = baseURL,
                    webdav_connected = False \<rparr>)"

definition webdav_request ::
  "webdav_Client \<Rightarrow> string \<Rightarrow> string \<Rightarrow> (string \<times> string) list \<Rightarrow> reader option \<Rightarrow> request" where
  "webdav_request c method url headers body =
     \<lparr> req_Method = method, req_URL = url,
       req_BasicAuth =
         (if webdav_Username (webdav_config c) \<noteq> []
          then Some (webdav_Username (webdav_config c), webdav_Password (webdav_config c))
          else None),
       req_Header = headers, req_Body = body \<rparr>"

definition webdav_Connect ::
  "http_env \<Rightarrow> webdav_Client \<times> log \<Rightarrow> result \<times> webdav_Client \<times> log" where
  "webdav_Connect E = (\<lambda>(c, log).
     (case webdav_baseURL c of
        None \<Rightarrow> (Panic ''nil pointer dereference'', c, log)
      | Some baseURL \<Rightarrow>
          (case http_NewRequest E ''PROPFIND'' (url_String E baseURL) of
             Some err \<Rightarrow>
               (Return NoValue (Some (''failed to create PROPFIND request: '' @ err)), c, log)
           | None \<Rightarrow>
               let req = webdav_request c ''PROPFIND'' (url_String E baseURL)
                           [(''Depth'', ''0'')] None
               in (case http_Do E log req of
                     Inl err \<Rightarrow>
                       (Return NoValue (Some (''failed to connect to WebDAV server: '' @ err)),
                        c, log @ [HttpDo req])
                   | Inr resp \<Rightarrow>
                       if resp_StatusCode resp \<noteq> 207 \<and> resp_StatusCode resp \<noteq> 200 then
                         (Return NoValue
                            (Some (''WebDAV server returned status '' @
                                   itoa (resp_StatusCode resp))),
                          c, log @ [HttpDo req, Close (resp_Body resp)])
                       else
                         (Return NoValue None, c\<lparr>webdav_connected := True\<rparr>,
                          log @ [HttpDo req, Close (resp_Body resp)])))))"

definition webdav_Disconnect :: "webdav_Client \<times> log \<Rightarrow> result \<times> webdav_Client \<times> log" where
  "webdav_Disconnect = (\<lambda>(c, log). (Return NoValue None, c\<lparr>webdav_connected := False\<rparr>, log))"

definition webdav_IsConnected :: "webdav_Client \<Rightarrow> bool" where
  "webdav_IsConnected c = webdav_connected c"

definition webdav_TestConnection ::
  "http_env \<Rightarrow> webdav_Client \<times> log \<Rightarrow> result \<times> webdav_Client \<times> log" where
  "webdav_TestConnection E = (\<lambda>(c, log).
     if \<not> webdav_IsConnected c then (not_connected, c, log)
     else webdav_Connect E (c, log))"

text \<open>
  \<open>resolveURL\<close>: \<open>webdav_resolve\<close> is the URL value \<open>u\<close> after its path has been set, and
  the function returns its rendering. Copying through a \<open>nil\<close> base URL panics (\<open>None\<close>).
\<close>

definition webdav_resolve :: "URL \<Rightarrow> string \<Rightarrow> URL" where
  "webdav_resolve baseURL path = baseURL\<lparr>url_Path := Join (url_Path baseURL) (cleanPath path)\<rparr>"

definition webdav_resolveURL :: "http_env \<Rightarrow> webdav_Client \<Rightarrow> string \<Rightarrow> string option" where
  "webdav_resolveURL E c path =
     (case webdav_baseURL c of
        None \<Rightarrow> None
      | Some baseURL \<Rightarrow> Some (url_String E (webdav_resolve baseURL path)))"

section \<open>The WebDAV adapter: operations\<close>

definition webdav_ReadFile ::
  "http_env \<Rightarrow> string \<Rightarrow> webdav_Client \<times> log \<Rightarrow> result \<times> webdav_Client \<times> log" where
  "webdav_ReadFile E path = (\<lambda>(c, log).
     if \<not> webdav_IsConnected c then (not_connected, c, log)
     else
       (case webdav_resolveURL E c path of
          None \<Rightarrow> (Panic ''nil pointer dereference'', c, log)
        | Some fullURL \<Rightarrow>
            (case http_NewRequest E ''GET'' fullURL of
               Some err \<Rightarrow>
                 (Return NoValue (Some (''failed to create GET request: '' @ err)), c, log)
             | None \<Rightarrow>
                 let req = webdav_request c ''GET'' fullURL [] None
                 in (case http_Do E log req of
                       Inl err \<Rightarrow>
                         (Return NoValue
                            (Some (''failed to retrieve WebDAV file '' @ fullURL @ '': '' @ err)),
                          c, log @ [HttpDo req])
                     | Inr resp \<Rightarrow>
                         if resp_StatusCode resp \<noteq> 200 then
                           (Return NoValue
                              (Some (''WebDAV server returned status '' @
                                     itoa (resp_StatusCode resp) @ '' for file '' @ fullURL)),
                            c, log @ [HttpDo req, Close (resp_Body resp)])
                         else (Return (Reader (resp_Body resp)) None, c, log @ [HttpDo req])))))"

definition webdav_WriteFile ::
  "http_env \<Rightarrow> string \<Rightarrow> reader \<Rightarrow> webdav_Client \<times> log \<Rightarrow> result \<times> webdav_Client \<times> log" where
  "webdav_WriteFile E path data = (\<lambda>(c, log).
     if \<not> webdav_IsConnected c then (not_connected, c, log)
     else
       (case webdav_resolveURL E c path of
          None \<Rightarrow> (Panic ''nil pointer dereference'', c, log)
        | Some fullURL \<Rightarrow>
            (case http_NewRequest E ''PUT'' fullURL of
               Some err \<Rightarrow>
                 (Return NoValue (Some (''failed to create PUT request: '' @ err)), c, log)
             | None \<Rightarrow>
                 let req = webdav_request c ''PUT'' fullURL [] (Some data)
                 in (case http_Do E log req of
                       Inl err \<Rightarrow>
                         (Return NoValue
                            (Some (''failed to upload WebDAV file '' @ fullURL @ '': '' @ err)),
                          c, log @ [HttpDo req])
                     | Inr resp \<Rightarrow>
                         if resp_StatusCode resp < 200 \<or> resp_StatusCode resp \<ge> 300 then
                           (Return NoValue
                              (Some (''WebDAV server returned status '' @
                                     itoa (resp_StatusCode resp) @ '' for file '' @ fullURL)),
                            c, log @ [HttpDo req, Close (resp_Body resp)])
                         else
                           (Return NoValue None, c,
                            log @ [HttpDo req, Close (resp_Body resp)])))))"

text \<open>The layout \<open>time.RFC1123\<close> and the second layout that \<open>ListDirectory\<close> tries.\<close>

definition RFC1123 :: string where
  "RFC1123 = ''Mon, 02 Jan 2006 15:04:05 MST''"

definition RFC1123_short_day :: string where
  "RFC1123_short_day = ''Mon, 2 Jan 2006 15:04:05 MST''"

definition webdav_GetFileInfo ::
  "http_env \<Rightarrow> string \<Rightarrow> webdav_Client \<times> log \<Rightarrow> result \<times> webdav_Client \<times> log" where
  "webdav_GetFileInfo E path = (\<lambda>(c, log).
     if \<not> webdav_IsConnected c then (not_connected, c, log)
     else
       (case webdav_resolveURL E c path of
          None \<Rightarrow> (Panic ''nil pointer dereference'', c, log)
        | Some fullURL \<Rightarrow>
            (case http_NewRequest E ''HEAD'' fullURL of
               Some err \<Rightarrow>
                 (Return NoValue (Some (''failed to create HEAD request: '' @ err)), c, log)
             | None \<Rightarrow>
                 let req = webdav_request c ''HEAD'' fullURL [] None
                 in (case http_Do E log req of
                       Inl err \<Rightarrow>
                         (Return NoValue
                            (Some (''failed to get WebDAV file info '' @ fullURL @ '': '' @ err)),
                          c, log @ [HttpDo req])
                     | Inr resp \<Rightarrow>
                         if resp_StatusCode resp \<noteq> 200 then
                           (Return NoValue
                              (Some (''WebDAV server returned status '' @
                                     itoa (resp_StatusCode resp) @ '' for file '' @ fullURL)),
                            c, log @ [HttpDo req, Close (resp_Body resp)])
                         else
                           let cl = Header_Get (resp_Header resp) ''Content-Length'';
                               sz = (if cl \<noteq> [] then
                                       (case ParseInt cl of Some n \<Rightarrow> n | None \<Rightarrow> 0)
                                     else 0);
                               lm = Header_Get (resp_Header resp) ''Last-Modified'';
                               modTime = (if lm \<noteq> [] then
                                            (case time_Parse E RFC1123 lm of
                                               Some t \<Rightarrow> t
                                             | None \<Rightarrow> time_Now E (log @ [HttpDo req]))
                                          else time_Now E (log @ [HttpDo req]));
                               isDir = (HasSuffix path ''/'' \<or>
                                        Header_Get (resp_Header resp) ''Content-Type'' =
                                          ''httpd/unix-directory'')
                           in (Return
                                 (Info \<lparr> Name = Base path, Size = sz, ModTime = modTime,
                                         IsDir = isDir, Mode = 420, Path = path \<rparr>) None,
                               c, log @ [HttpDo req, Close (resp_Body resp)])))))"

text \<open>
  The parser of \<open>ListDirectory\<close>. One chunk of the split body gives an entry, is skipped
  (\<open>continue\<close>), or makes a slice expression panic.
\<close>

datatype chunk_result = Skip | Entry FileInfo | SliceFault

definition webdav_chunk ::
  "(string \<Rightarrow> string \<Rightarrow> time option) \<Rightarrow> time \<Rightarrow> string \<Rightarrow> string \<Rightarrow> chunk_result" where
  "webdav_chunk parse_time now fullURL response0 =
     (case Index response0 ''</D:response>'' of
        None \<Rightarrow> Skip
      | Some endIndex \<Rightarrow>
          let response = take endIndex response0;
              hrefStart = Index response ''<D:href>'';
              hrefEnd = Index response ''</D:href>''
          in if hrefStart = None \<or> hrefEnd = None then Skip
             else
               (case slice response (the hrefStart + 8) (the hrefEnd) of
                  None \<Rightarrow> SliceFault
                | Some href \<Rightarrow>
                    if href = fullURL \<or> href = TrimSuffix fullURL ''/'' then Skip
                    else
                      let nameStart = Index response ''<D:displayname>'';
                          nameEnd = Index response ''</D:displayname>'';
                          displayName =
                            (if nameStart \<noteq> None \<and> nameEnd \<noteq> None
                             then slice response (the nameStart + 16) (the nameEnd)
                             else Some (Base href));
                          sizeStart = Index response ''<D:getcontentlength>'';
                          sizeEnd = Index response ''</D:getcontentlength>'';
                          sizeStr =
                            (if sizeStart \<noteq> None \<and> sizeEnd \<noteq> None
                             then slice response (the sizeStart + 20) (the sizeEnd)
                             else Some []);
                          modStart = Index response ''<D:getlastmodified>'';
                          modEnd = Index response ''</D:getlastmodified>'';
                          modStr =
                            (if modStart \<noteq> None \<and> modEnd \<noteq> None
                             then slice response (the modStart + 20) (the modEnd)
                             else Some [])
                      in if displayName = None \<or> sizeStr = None \<or> modStr = None then SliceFault
                         else
                           let sz = (if sizeStart \<noteq> None \<and> sizeEnd \<noteq> None then
                                       (case ParseInt (the sizeStr) of Some n \<Rightarrow> n | None \<Rightarrow> 0)
                                     else 0);
                               modTime =
                                 (if modStart \<noteq> None \<and> modEnd \<noteq> None then
                                    (case parse_time RFC1123 (the modStr) of
                                       Some t \<Rightarrow> t
                                     | None \<Rightarrow>
                                         (case parse_time RFC1123_short_day (the modStr) of
                                            Some t \<Rightarrow> t
                                          | None \<Rightarrow> now))
                                  else now);
                               isDir =
                                 (Contains response
                                    ''<D:resourcetype><D:collection/></D:resourcetype>'' \<or>
                                  Contains response
                                    ''<D:resourcetype><D:directory/></D:resourcetype>'');
                               relPath0 = TrimPrefix href fullURL;
                               relPath = (if relPath0 = [] then the displayName
                                          else TrimPrefix relPath0 ''/'')
                           in Entry \<lparr> Name = the displayName, Size = sz, ModTime = modTime,
                                      IsDir = isDir, Mode = 420, Path = relPath \<rparr>))"

text \<open>The loop over the chunks: \<open>None\<close> when a chunk panics.\<close>

fun webdav_chunks ::
  "(string \<Rightarrow> string \<Rightarrow> time option) \<Rightarrow> time \<Rightarrow> string \<Rightarrow> string list \<Rightarrow> FileInfo list option" where
  "webdav_chunks parse_time now fullURL [] = Some []"
| "webdav_chunks parse_time now fullURL (response # responses) =
     (case webdav_chunk parse_time now fullURL response of
        SliceFault \<Rightarrow> None
      | Skip \<Rightarrow> webdav_chunks parse_time now fullURL responses
      | Entry file \<Rightarrow>
          (case webdav_chunks parse_time now fullURL responses of
             None \<Rightarrow> None
           | Some files \<Rightarrow> Some (file # files)))"

text \<open>The loop starts at index 1: the text before the first marker is not a chunk.\<close>

definition webdav_parse ::
  "(string \<Rightarrow> string \<Rightarrow> time option) \<Rightarrow> time \<Rightarrow> string \<Rightarrow> string \<Rightarrow> FileInfo list option" where
  "webdav_parse parse_time now fullURL responseStr =
     webdav_chunks parse_time now fullURL (drop 1 (Split responseStr ''<D:response>''))"

definition propfind_body :: string where
  \<open>propfind_body =
     ''<?xml version="1.0" encoding="utf-8" ?>'' @ [CHR 0x0A] @
     ''<D:propfind xmlns:D="DAV:">'' @ [CHR 0x0A] @
     [CHR 0x09] @ ''<D:prop>'' @ [CHR 0x0A] @
     [CHR 0x09, CHR 0x09] @ ''<D:displayname/>'' @ [CHR 0x0A] @
     [CHR 0x09, CHR 0x09] @ ''<D:getcontentlength/>'' @ [CHR 0x0A] @
     [CHR 0x09, CHR 0x09] @ ''<D:getlastmodified/>'' @ [CHR 0x0A] @
     [CHR 0x09, CHR 0x09] @ ''<D:resourcetype/>'' @ [CHR 0x0A] @
     [CHR 0x09] @ ''</D:prop>'' @ [CHR 0x0A] @
     ''</D:propfind>''\<close>

definition webdav_ListDirectory ::
  "http_env \<Rightarrow> string \<Rightarrow> webdav_Client \<times> log \<Rightarrow> result \<times> webdav_Client \<times> log" where
  "webdav_ListDirectory E path = (\<lambda>(c, log).
     if \<not> webdav_IsConnected c then (not_connected, c, log)
     else
       (case webdav_resolveURL E c path of
          None \<Rightarrow> (Panic ''nil pointer dereference'', c, log)
        | Some fullURL \<Rightarrow>
            (case http_NewRequest E ''PROPFIND'' fullURL of
               Some err \<Rightarrow>
                 (Return NoValue (Some (''failed to create PROPFIND request: '' @ err)), c, log)
             | None \<Rightarrow>
                 let req = webdav_request c ''PROPFIND'' fullURL
                             [(''Depth'', ''1''), (''Content-Type'', ''application/xml'')]
                             (Some (Bytes propfind_body))
                 in (case http_Do E log req of
                       Inl err \<Rightarrow>
                         (Return NoValue
                            (Some (''failed to list WebDAV directory '' @ fullURL @ '': '' @ err)),
                          c, log @ [HttpDo req])
                     | Inr resp \<Rightarrow>
                         if resp_StatusCode resp \<noteq> 207 then
                           (Return NoValue
                              (Some (''WebDAV server returned status '' @
                                     itoa (resp_StatusCode resp) @ '' for directory '' @ fullURL)),
                            c, log @ [HttpDo req, Close (resp_Body resp)])
                         else
                           (case resp_ReadAll resp of
                              Inl err \<Rightarrow>
                                (Return NoValue
                                   (Some (''failed to read WebDAV response: '' @ err)),
                                 c, log @ [HttpDo req, Close (resp_Body resp)])
                            | Inr responseStr \<Rightarrow>
                                (case webdav_parse (time_Parse E) (time_Now E (log @ [HttpDo req]))
                                        fullURL responseStr of
                                   None \<Rightarrow>
                                     (Panic ''slice bounds out of range'', c,
                                      log @ [HttpDo req, Close (resp_Body resp)])
                                 | Some files \<Rightarrow>
                                     (Return (Files files) None, c,
                                      log @ [HttpDo req, Close (resp_Body resp)])))))))"

definition webdav_FileExists ::
  "http_env \<Rightarrow> string \<Rightarrow> webdav_Client \<times> log \<Rightarrow> result \<times> webdav_Client \<times> log" where
  "webdav_FileExists E path = (\<lambda>(c, log).
     if \<not> webdav_IsConnected c then (Return (Bool False) (Some ''not connected''), c, log)
     else
       (case webdav_resolveURL E c path of
          None \<Rightarrow> (Panic ''nil pointer dereference'', c, log)
        | Some fullURL \<Rightarrow>
            (case http_NewRequest E ''HEAD'' fullURL of
               Some err \<Rightarrow>
                 (Return (Bool False) (Some (''failed to create HEAD request: '' @ err)), c, log)
             | None \<Rightarrow>
                 let req = webdav_request c ''HEAD'' fullURL [] None
                 in (case http_Do E log req of
                       Inl err \<Rightarrow>
                         (Return (Bool False)
                            (Some (''failed to check WebDAV file existence '' @ fullURL @ '': '' @
                                   err)),
                          c, log @ [HttpDo req])
                     | Inr resp \<Rightarrow>
                         (Return (Bool (resp_StatusCode resp = 200)) None, c,
                          log @ [HttpDo req, Close (resp_Body resp)])))))"

definition webdav_CreateDirectory ::
  "http_env \<Rightarrow> string \<Rightarrow> webdav_Client \<times> log \<Rightarrow> result \<times> webdav_Client \<times> log" where
  "webdav_CreateDirectory E path = (\<lambda>(c, log).
     if \<not> webdav_IsConnected c then (not_connected, c, log)
     else
       (case webdav_resolveURL E c path of
          None \<Rightarrow> (Panic ''nil pointer dereference'', c, log)
        | Some fullURL \<Rightarrow>
            (case http_NewRequest E ''MKCOL'' fullURL of
               Some err \<Rightarrow>
                 (Return NoValue (Some (''failed to create MKCOL request: '' @ err)), c, log)
             | None \<Rightarrow>
                 let req = webdav_request c ''MKCOL'' fullURL [] None
                 in (case http_Do E log req of
                       Inl err \<Rightarrow>
                         (Return NoValue
                            (Some (''failed to create WebDAV directory '' @ fullURL @ '': '' @ err)),
                          c, log @ [HttpDo req])
                     | Inr resp \<Rightarrow>
                         if resp_StatusCode resp < 200 \<or> resp_StatusCode resp \<ge> 300 then
                           (Return NoValue
                              (Some (''WebDAV server returned status '' @
                                     itoa (resp_StatusCode resp) @ '' for directory '' @ fullURL)),
                            c, log @ [HttpDo req, Close (resp_Body resp)])
                         else
                           (Return NoValue None, c,
                            log @ [HttpDo req, Close (resp_Body resp)])))))"

definition webdav_DeleteDirectory ::
  "http_env \<Rightarrow> string \<Rightarrow> webdav_Client \<times> log \<Rightarrow> result \<times> webdav_Client \<times> log" where
  "webdav_DeleteDirectory E path = (\<lambda>(c, log).
     if \<not> webdav_IsConnected c then (not_connected, c, log)
     else
       (case webdav_resolveURL E c path of
          None \<Rightarrow> (Panic ''nil pointer dereference'', c, log)
        | Some fullURL \<Rightarrow>
            (case http_NewRequest E ''DELETE'' fullURL of
               Some err \<Rightarrow>
                 (Return NoValue (Some (''failed to create DELETE request: '' @ err)), c, log)
             | None \<Rightarrow>
                 let req = webdav_request c ''DELETE'' fullURL [] None
                 in (case http_Do E log req of
                       Inl err \<Rightarrow>
                         (Return NoValue
                            (Some (''failed to delete WebDAV directory '' @ fullURL @ '': '' @ err)),
                          c, log @ [HttpDo req])
                     | Inr resp \<Rightarrow>
                         if resp_StatusCode resp < 200 \<or> resp_StatusCode resp \<ge> 300 then
                           (Return NoValue
                              (Some (''WebDAV server returned status '' @
                                     itoa (resp_StatusCode resp) @ '' for directory '' @ fullURL)),
                            c, log @ [HttpDo req, Close (resp_Body resp)])
                         else
                           (Return NoValue None, c,
                            log @ [HttpDo req, Close (resp_Body resp)])))))"

definition webdav_DeleteFile ::
  "http_env \<Rightarrow> string \<Rightarrow> webdav_Client \<times> log \<Rightarrow> result \<times> webdav_Client \<times> log" where
  "webdav_DeleteFile E path = (\<lambda>(c, log).
     if \<not> webdav_IsConnected c then (not_connected, c, log)
     else
       (case webdav_resolveURL E c path of
          None \<Rightarrow> (Panic ''nil pointer dereference'', c, log)
        | Some fullURL \<Rightarrow>
            (case http_NewRequest E ''DELETE'' fullURL of
               Some err \<Rightarrow>
                 (Return NoValue (Some (''failed to create DELETE request: '' @ err)), c, log)
             | None \<Rightarrow>
                 let req = webdav_request c ''DELETE'' fullURL [] None
                 in (case http_Do E log req of
                       Inl err \<Rightarrow>
                         (Return NoValue
                            (Some (''failed to delete WebDAV file '' @ fullURL @ '': '' @ err)),
                          c, log @ [HttpDo req])
                     | Inr resp \<Rightarrow>
                         if resp_StatusCode resp < 200 \<or> resp_StatusCode resp \<ge> 300 then
                           (Return NoValue
                              (Some (''WebDAV server returned status '' @
                                     itoa (resp_StatusCode resp) @ '' for file '' @ fullURL)),
                            c, log @ [HttpDo req, Close (resp_Body resp)])
                         else
                           (Return NoValue None, c,
                            log @ [HttpDo req, Close (resp_Body resp)])))))"

definition webdav_CopyFile ::
  "http_env \<Rightarrow> string \<Rightarrow> string \<Rightarrow> webdav_Client \<times> log \<Rightarrow> result \<times> webdav_Client \<times> log" where
  "webdav_CopyFile E srcPath dstPath = (\<lambda>(c, log).
     if \<not> webdav_IsConnected c then (not_connected, c, log)
     else
       (case (webdav_resolveURL E c srcPath, webdav_resolveURL E c dstPath) of
          (Some srcURL, Some dstURL) \<Rightarrow>
            (case http_NewRequest E ''COPY'' srcURL of
               Some err \<Rightarrow>
                 (Return NoValue (Some (''failed to create COPY request: '' @ err)), c, log)
             | None \<Rightarrow>
                 let req = webdav_request c ''COPY'' srcURL [(''Destination'', dstURL)] None
                 in (case http_Do E log req of
                       Inl err \<Rightarrow>
                         (Return NoValue
                            (Some (''failed to copy WebDAV file from '' @ srcURL @ '' to '' @
                                   dstURL @ '': '' @ err)),
                          c, log @ [HttpDo req])
                     | Inr resp \<Rightarrow>
                         if resp_StatusCode resp < 200 \<or> resp_StatusCode resp \<ge> 300 then
                           (Return NoValue
                              (Some (''WebDAV server returned status '' @
                                     itoa (resp_StatusCode resp) @ '' for copy operation'')),
                            c, log @ [HttpDo req, Close (resp_Body resp)])
                         else
                           (Return NoValue None, c,
                            log @ [HttpDo req, Close (resp_Body resp)])))
        | _ \<Rightarrow> (Panic ''nil pointer dereference'', c, log)))"

section \<open>The interface \<open>client.Client\<close>\<close>

text \<open>
  A value of the interface is one of the five adapters. The file and directory
  operations of the interface, and \<open>TestConnection\<close>, are the constructors of
  \<open>operation\<close>; \<open>Client_do\<close> is the call through the interface.
\<close>

datatype Client =
    LocalClient local_Client
  | SMBClient smb_Client
  | FTPClient ftp_Client
  | NFSClient nfs_Client
  | WebDAVClient webdav_Client

datatype operation =
    ReadFile string
  | WriteFile string reader
  | GetFileInfo string
  | FileExists string
  | DeleteFile string
  | CopyFile string string
  | ListDirectory string
  | CreateDirectory string
  | DeleteDirectory string
  | TestConnection

record world =
  w_os :: os_env
  w_smb :: smb_env
  w_ftp :: ftp_env
  w_http :: http_env

fun local_op :: "os_env \<Rightarrow> operation \<Rightarrow> local_Client \<times> log \<Rightarrow> result \<times> local_Client \<times> log" where
  "local_op E (ReadFile path) = local_ReadFile E path"
| "local_op E (WriteFile path data) = local_WriteFile E path data"
| "local_op E (GetFileInfo path) = local_GetFileInfo E path"
| "local_op E (FileExists path) = local_FileExists E path"
| "local_op E (DeleteFile path) = local_DeleteFile E path"
| "local_op E (CopyFile srcPath dstPath) = local_CopyFile E srcPath dstPath"
| "local_op E (ListDirectory path) = local_ListDirectory E path"
| "local_op E (CreateDirectory path) = local_CreateDirectory E path"
| "local_op E (DeleteDirectory path) = local_DeleteDirectory E path"
| "local_op E TestConnection = local_TestConnection E"

fun smb_op :: "smb_env \<Rightarrow> operation \<Rightarrow> smb_Client \<times> log \<Rightarrow> result \<times> smb_Client \<times> log" where
  "smb_op E (ReadFile path) = smb_ReadFile E path"
| "smb_op E (WriteFile path data) = smb_WriteFile E path data"
| "smb_op E (GetFileInfo path) = smb_GetFileInfo E path"
| "smb_op E (FileExists path) = smb_FileExists E path"
| "smb_op E (DeleteFile path) = smb_DeleteFile E path"
| "smb_op E (CopyFile srcPath dstPath) = smb_CopyFile E srcPath dstPath"
| "smb_op E (ListDirectory path) = smb_ListDirectory E path"
| "smb_op E (CreateDirectory path) = smb_CreateDirectory E path"
| "smb_op E (DeleteDirectory path) = smb_DeleteDirectory E path"
| "smb_op E TestConnection = smb_TestConnection E"

fun ftp_op :: "ftp_env \<Rightarrow> operation \<Rightarrow> ftp_Client \<times> log \<Rightarrow> result \<times> ftp_Client \<times> log" where
  "ftp_op E (ReadFile path) = ftp_ReadFile E path"
| "ftp_op E (WriteFile path data) = ftp_WriteFile E path data"
| "ftp_op E (GetFileInfo path) = ftp_GetFileInfo E path"
| "ftp_op E (FileExists path) = ftp_FileExists E path"
| "ftp_op E (DeleteFile path) = ftp_DeleteFile E path"
| "ftp_op E (CopyFile srcPath dstPath) = ftp_CopyFile E srcPath dstPath"
| "ftp_op E (ListDirectory path) = ftp_ListDirectory E path"
| "ftp_op E (CreateDirectory path) = ftp_CreateDirectory E path"
| "ftp_op E (DeleteDirectory path) = ftp_DeleteDirectory E path"
| "ftp_op E TestConnection = ftp_TestConnection E"

fun nfs_op :: "os_env \<Rightarrow> operation \<Rightarrow> nfs_Client \<times> log \<Rightarrow> result \<times> nfs_Client \<times> log" where
  "nfs_op E (ReadFile path) = nfs_ReadFile E path"
| "nfs_op E (WriteFile path data) = nfs_WriteFile E path data"
| "nfs_op E (GetFileInfo path) = nfs_GetFileInfo E path"
| "nfs_op E (FileExists path) = nfs_FileExists E path"
| "nfs_op E (DeleteFile path) = nfs_DeleteFile E path"
| "nfs_op E (CopyFile srcPath dstPath) = nfs_CopyFile E srcPath dstPath"
| "nfs_op E (ListDirectory path) = nfs_ListDirectory E path"
| "nfs_op E (CreateDirectory path) = nfs_CreateDirectory E path"
| "nfs_op E (DeleteDirectory path) = nfs_DeleteDirectory E path"
| "nfs_op E TestConnection = nfs_TestConnection E"

fun webdav_op :: "http_env \<Rightarrow> operation \<Rightarrow> webdav_Client \<times> log \<Rightarrow> result \<times> webdav_Client \<times> log" where
  "webdav_op E (ReadFile path) = webdav_ReadFile E path"
| "webdav_op E (WriteFile path data) = webdav_WriteFile E path data"
| "webdav_op E (GetFileInfo path) = webdav_GetFileInfo E path"
| "webdav_op E (FileExists path) = webdav_FileExists E path"
| "webdav_op E (DeleteFile path) = webdav_DeleteFile E path"
| "webdav_op E (CopyFile srcPath dstPath) = webdav_CopyFile E srcPath dstPath"
| "webdav_op E (ListDirectory path) = webdav_ListDirectory E path"
| "webdav_op E (CreateDirectory path) = webdav_CreateDirectory E path"
| "webdav_op E (DeleteDirectory path) = webdav_DeleteDirectory E path"
| "webdav_op E TestConnection = webdav_TestConnection E"

definition lift_step ::
  "('c \<Rightarrow> Client) \<Rightarrow> result \<times> 'c \<times> log \<Rightarrow> result \<times> Client \<times> log" where
  "lift_step wrap = (\<lambda>(r, c, log). (r, wrap c, log))"

fun Client_do :: "world \<Rightarrow> operation \<Rightarrow> Client \<times> log \<Rightarrow> result \<times> Client \<times> log" where
  "Client_do W opn (LocalClient c, log) = lift_step LocalClient (local_op (w_os W) opn (c, log))"
| "Client_do W opn (SMBClient c, log) = lift_step SMBClient (smb_op (w_smb W) opn (c, log))"
| "Client_do W opn (FTPClient c, log) = lift_step FTPClient (ftp_op (w_ftp W) opn (c, log))"
| "Client_do W opn (NFSClient c, log) = lift_step NFSClient (nfs_op (w_os W) opn (c, log))"
| "Client_do W opn (WebDAVClient c, log) =
     lift_step WebDAVClient (webdav_op (w_http W) opn (c, log))"

fun Client_IsConnected :: "world \<Rightarrow> log \<Rightarrow> Client \<Rightarrow> bool" where
  "Client_IsConnected W log (LocalClient c) = local_IsConnected c"
| "Client_IsConnected W log (SMBClient c) = smb_IsConnected c"
| "Client_IsConnected W log (FTPClient c) = ftp_IsConnected c"
| "Client_IsConnected W log (NFSClient c) = nfs_IsConnected (w_os W) log c"
| "Client_IsConnected W log (WebDAVClient c) = webdav_IsConnected c"

fun Client_Disconnect :: "world \<Rightarrow> Client \<times> log \<Rightarrow> result \<times> Client \<times> log" where
  "Client_Disconnect W (LocalClient c, log) = lift_step LocalClient (local_Disconnect (c, log))"
| "Client_Disconnect W (SMBClient c, log) = lift_step SMBClient (smb_Disconnect (w_smb W) (c, log))"
| "Client_Disconnect W (FTPClient c, log) = lift_step FTPClient (ftp_Disconnect (w_ftp W) (c, log))"
| "Client_Disconnect W (NFSClient c, log) = lift_step NFSClient (nfs_Disconnect (w_os W) (c, log))"
| "Client_Disconnect W (WebDAVClient c, log) =
     lift_step WebDAVClient (webdav_Disconnect (c, log))"

text \<open>The value an operation returns beside an error: \<open>false\<close> for \<open>FileExists\<close>, else \<open>nil\<close>.\<close>

fun zero_value :: "operation \<Rightarrow> value" where
  "zero_value (FileExists path) = Bool False"
| "zero_value opn = NoValue"

section \<open>Package factory\<close>

text \<open>
  A value of the settings map (\<open>interface{}\<close>): a string, an \<open>int\<close>, a \<open>float64\<close> or
  anything else. Floating-point numbers are kept abstract (\<open>'f\<close>); the conversion
  \<open>int(floatNum)\<close> is a parameter.
\<close>

datatype 'f setting = SString string | SInt int | SFloat 'f | SOther

record 'f StorageConfig =
  sc_ID :: string
  sc_Name :: string
  sc_Protocol :: string
  sc_Enabled :: bool
  sc_MaxDepth :: int
  sc_Settings :: "string \<rightharpoonup> 'f setting"
  sc_CreatedAt :: time
  sc_UpdatedAt :: time

definition GetStringSetting :: "(string \<rightharpoonup> 'f setting) \<Rightarrow> string \<Rightarrow> string \<Rightarrow> string" where
  "GetStringSetting settings key defaultValue =
     (case settings key of Some (SString str) \<Rightarrow> str | _ \<Rightarrow> defaultValue)"

definition GetIntSetting ::
  "('f \<Rightarrow> int) \<Rightarrow> (string \<rightharpoonup> 'f setting) \<Rightarrow> string \<Rightarrow> int \<Rightarrow> int" where
  "GetIntSetting float_to_int settings key defaultValue =
     (case settings key of
        Some (SInt num) \<Rightarrow> num
      | Some (SFloat floatNum) \<Rightarrow> float_to_int floatNum
      | _ \<Rightarrow> defaultValue)"

text \<open>
  What \<open>CreateClient\<close> returns: a client and a \<open>nil\<close> error, a \<open>nil\<close> client and an error,
  or a panic of the constructor it calls.
\<close>

datatype created = Created Client | Failed string | ConstructorPanic string

text \<open>
  \<open>createNFSClient\<close> has two implementations, chosen by the build: \<open>nfs_linux.go\<close> on
  Linux and the one that only returns an error elsewhere.
\<close>

definition createNFSClient :: "bool \<Rightarrow> 'f StorageConfig \<Rightarrow> created" where
  "createNFSClient linux config =
     (if linux then
        (case NewNFSClient
                \<lparr> nfs_Host = GetStringSetting (sc_Settings config) ''host'' [],
                  nfs_Path = GetStringSetting (sc_Settings config) ''path'' [],
                  nfs_MountPoint = GetStringSetting (sc_Settings config) ''mount_point'' [],
                  nfs_Options = GetStringSetting (sc_Settings config) ''options'' ''vers=3'' \<rparr> of
           Inl err \<Rightarrow> Failed (''failed to create NFS client: '' @ err)
         | Inr c \<Rightarrow> Created (NFSClient c))
      else Failed ''NFS protocol is only supported on Linux'')"

definition CreateClient ::
  "bool \<Rightarrow> (string \<Rightarrow> URL option) \<Rightarrow> ('f \<Rightarrow> int) \<Rightarrow> 'f StorageConfig \<Rightarrow> created" where
  "CreateClient linux url_Parse float_to_int config =
     (let settings = sc_Settings config
      in if sc_Protocol config = ''smb'' then
           Created (SMBClient (NewSMBClient
             \<lparr> smb_Host = GetStringSetting settings ''host'' [],
               smb_Port = GetIntSetting float_to_int settings ''port'' 445,
               smb_Share = GetStringSetting settings ''share'' [],
               smb_Username = GetStringSetting settings ''username'' [],
               smb_Password = GetStringSetting settings ''password'' [],
               smb_Domain = GetStringSetting settings ''domain'' ''WORKGROUP'' \<rparr>))
         else if sc_Protocol config = ''ftp'' then
           Created (FTPClient (NewFTPClient
             \<lparr> ftp_Host = GetStringSetting settings ''host'' [],
               ftp_Port = GetIntSetting float_to_int settings ''port'' 21,
               ftp_Username = GetStringSetting settings ''username'' [],
               ftp_Password = GetStringSetting settings ''password'' [],
               ftp_Path = GetStringSetting settings ''path'' [] \<rparr>))
         else if sc_Protocol config = ''nfs'' then createNFSClient linux config
         else if sc_Protocol config = ''webdav'' then
           (case NewWebDAVClient url_Parse
                   \<lparr> webdav_URL = GetStringSetting settings ''url'' [],
                     webdav_Username = GetStringSetting settings ''username'' [],
                     webdav_Password = GetStringSetting settings ''password'' [],
                     webdav_Path = GetStringSetting settings ''path'' [] \<rparr> of
              Inl p \<Rightarrow> ConstructorPanic p
            | Inr c \<Rightarrow> Created (WebDAVClient c))
         else if sc_Protocol config = ''local'' then
           Created (LocalClient (NewLocalClient
             \<lparr> BasePath = GetStringSetting settings ''base_path'' [] \<rparr>))
         else Failed (''unsupported protocol: '' @ sc_Protocol config))"

definition SupportedProtocols :: "string list" where
  "SupportedProtocols = [''smb'', ''ftp'', ''nfs'', ''webdav'', ''local'']"

section \<open>Properties stated about resolved paths\<close>

text \<open>
  A resolved path \<open>r\<close> is syntactically at or below a base when the cleaned base is
  \<open>r\<close> itself or is followed in \<open>r\<close> by a separator; below the root every rooted path
  lies, and below the current directory \<open>.\<close> every path that is not rooted.
\<close>

definition at_or_below :: "string \<Rightarrow> string \<Rightarrow> bool" where
  "at_or_below base r =
     (let b = Clean base
      in if b = ''.'' then \<not> HasPrefix r ''/''
         else if b = ''/'' then HasPrefix r ''/''
         else r = b \<or> HasPrefix r (b @ ''/''))"

text \<open>The elements of a path that \<open>Clean\<close> keeps when none of them is \<open>..\<close>.\<close>

definition kept :: "string \<Rightarrow> bool" where
  "kept e = (e \<noteq> [] \<and> e \<noteq> ''.'')"

section \<open>Sample environments and states\<close>

text \<open>
  Concrete backends on which the theorems below are instantiated: an FTP server whose
  listing holds an entry of size \<open>2^64 - 1\<close> (all 64 bits set) and whose \<open>SIZE\<close>
  command fails, and an FTP adapter connected to it.
\<close>

definition sample_ftp_env :: ftp_env where
  "sample_ftp_env =
     \<lparr> ftp_Quit = (\<lambda>log conn. None),
       ftp_CurrentDir = (\<lambda>log conn. Inr ''/''),
       ftp_Retr = (\<lambda>log conn path. Inr 9),
       ftp_Stor = (\<lambda>log conn path data. None),
       ftp_FileSize = (\<lambda>log conn path. Inl ''550 not a plain file''),
       ftp_List = (\<lambda>log conn path.
          Inr [\<lparr> entry_Name = ''huge.bin'', entry_Size = 18446744073709551615, entry_Time = 0,
                  entry_Type = EntryTypeFile \<rparr>,
               \<lparr> entry_Name = ''docs'', entry_Size = 4096, entry_Time = 0,
                  entry_Type = EntryTypeFolder \<rparr>]),
       ftp_MakeDir = (\<lambda>log conn path. None),
       ftp_RemoveDir = (\<lambda>log conn path. None),
       ftp_Delete = (\<lambda>log conn path. None),
       ftp_Now = (\<lambda>log. 0) \<rparr>"

definition sample_ftp_client :: ftp_Client where
  "sample_ftp_client =
     \<lparr> ftp_config = \<lparr> ftp_Host = ''ftp.example.com'', ftp_Port = 21, ftp_Username = ''user'',
                       ftp_Password = ''pass'', ftp_Path = ''/data'' \<rparr>,
       ftp_client = Some 1, ftp_connected = True \<rparr>"

text \<open>
  A parser that reads every string as \<open>http://localhost/webdav\<close>, and a rendering of
  the scheme, host and path of a URL.
\<close>

definition sample_url :: URL where
  "sample_url =
     \<lparr> url_Scheme = ''http'', url_Host = ''localhost'', url_Path = ''/webdav'',
       url_RawPath = [], url_RawQuery = [], url_Fragment = [] \<rparr>"

definition sample_url_Parse :: "string \<Rightarrow> URL option" where
  "sample_url_Parse s = Some sample_url"

definition sample_url_String :: "URL \<Rightarrow> string" where
  "sample_url_String u = url_Scheme u @ ''://'' @ url_Host u @ url_Path u"

definition sample_webdav_config :: "string \<Rightarrow> webdav_Config" where
  "sample_webdav_config path =
     \<lparr> webdav_URL = ''http://localhost/webdav'', webdav_Username = [], webdav_Password = [],
       webdav_Path = path \<rparr>"

text \<open>
  An operating system whose \<open>Stat\<close> fails with the given error and whose \<open>Unmount\<close>
  gives the given result; an SMB share whose \<open>Stat\<close> fails with the given message; an
  HTTP server that answers every request the same way, with a transport error or with
  a status and a body.
\<close>

definition sample_os_env :: "os_error \<Rightarrow> string option \<Rightarrow> os_env" where
  "sample_os_env stat_err unmount_result =
     \<lparr> os_Stat = (\<lambda>log path. Inl stat_err),
       os_Open = (\<lambda>log path. Inr 3),
       os_Create = (\<lambda>log path. Inr 4),
       os_MkdirAll = (\<lambda>log path. None),
       os_ReadDir = (\<lambda>log path. Inr []),
       os_Remove = (\<lambda>log path. None),
       os_RemoveAll = (\<lambda>log path. None),
       io_Copy = (\<lambda>log file data. None),
       sys_Mount = (\<lambda>log source target fstype options. None),
       sys_Unmount = (\<lambda>log target. unmount_result),
       proc_mounts_opens = (\<lambda>log. True) \<rparr>"

definition sample_smb_env :: "string \<Rightarrow> smb_env" where
  "sample_smb_env stat_msg =
     \<lparr> smb_Open = (\<lambda>log share path. Inr 3),
       smb_Create = (\<lambda>log share path. Inr 4),
       smb_Stat = (\<lambda>log share path. Inl stat_msg),
       smb_ReadDir = (\<lambda>log share path. Inr []),
       smb_Mkdir = (\<lambda>log share path. None),
       smb_Remove = (\<lambda>log share path. None),
       smb_Umount = (\<lambda>log share. None),
       smb_Logoff = (\<lambda>log session. Some ''session expired''),
       conn_Close = (\<lambda>log conn. None),
       smb_Copy = (\<lambda>log file data. None) \<rparr>"

definition sample_http_env :: "string + int \<times> string \<Rightarrow> http_env" where
  "sample_http_env answer =
     \<lparr> url_String = sample_url_String,
       http_NewRequest = (\<lambda>method url. None),
       http_Do = (\<lambda>log req.
          (case answer of
             Inl err \<Rightarrow> Inl err
           | Inr (status, body) \<Rightarrow>
               Inr \<lparr> resp_StatusCode = status, resp_Header = [], resp_Body = 5,
                     resp_ReadAll = Inr body \<rparr>)),
       time_Parse = (\<lambda>layout value. None),
       time_Now = (\<lambda>log. 0) \<rparr>"

definition sample_world :: "os_error \<Rightarrow> string option \<Rightarrow> string \<Rightarrow> string + int \<times> string \<Rightarrow> world" where
  "sample_world stat_err unmount_result smb_msg answer =
     \<lparr> w_os = sample_os_env stat_err unmount_result,
       w_smb = sample_smb_env smb_msg,
       w_ftp = sample_ftp_env,
       w_http = sample_http_env answer \<rparr>"

definition not_exist :: os_error where
  "not_exist = OsError ''no such file or directory'' True"

definition permission_denied :: os_error where
  "permission_denied = OsError ''permission denied'' False"

definition sample_local_client :: "bool \<Rightarrow> local_Client" where
  "sample_local_client conn =
     \<lparr> local_config = \<lparr> BasePath = ''/data'' \<rparr>, local_basePath = ''/data'',
       local_connected = conn \<rparr>"

definition sample_nfs_client :: "bool \<Rightarrow> bool \<Rightarrow> nfs_Client" where
  "sample_nfs_client mounted conn =
     \<lparr> nfs_config = \<lparr> nfs_Host = ''nas.local'', nfs_Path = ''/export'',
                       nfs_MountPoint = ''/mnt/nfs'', nfs_Options = ''vers=3'' \<rparr>,
       nfs_mounted = mounted, nfs_connected = conn, nfs_mountPoint = ''/mnt/nfs'' \<rparr>"

definition sample_smb_client :: "handle option \<Rightarrow> smb_Client" where
  "sample_smb_client h =
     \<lparr> smb_conn = h, smb_session = h, smb_share = h,
       smb_config = \<lparr> smb_Host = ''nas.local'', smb_Port = 445, smb_Share = ''media'',
                       smb_Username = ''user'', smb_Password = ''pass'',
                       smb_Domain = ''WORKGROUP'' \<rparr> \<rparr>"

definition sample_webdav_client :: "bool \<Rightarrow> webdav_Client" where
  "sample_webdav_client conn =
     \<lparr> webdav_config = sample_webdav_config [], webdav_baseURL = Some sample_url,
       webdav_connected = conn \<rparr>"

text \<open>
  The multistatus body that the repository's test \<open>TestWebDAVClient_ListDirectory_Success\<close>
  serves for a listing of \<open>/webdav\<close>: the collection itself, a file and a
  sub-collection, each named by its path on the server. The second body names the
  same collection and one file by full URLs, the collection with a trailing slash.
\<close>

definition test_listing_body :: string where
  \<open>test_listing_body =
     ''<?xml version="1.0" encoding="utf-8"?>'' @ [CHR 0x0A] @
     ''<D:multistatus xmlns:D="DAV:">'' @ [CHR 0x0A] @
     ''<D:response>'' @ [CHR 0x0A] @
     ''<D:href>/webdav/</D:href>'' @ [CHR 0x0A] @
     ''<D:propstat><D:prop><D:displayname>webdav</D:displayname>'' @
     ''<D:resourcetype><D:collection/></D:resourcetype></D:prop></D:propstat>'' @ [CHR 0x0A] @
     ''</D:response>'' @ [CHR 0x0A] @
     ''<D:response>'' @ [CHR 0x0A] @
     ''<D:href>/webdav/file1.txt</D:href>'' @ [CHR 0x0A] @
     ''<D:propstat><D:prop><D:displayname>file1.txt</D:displayname>'' @
     ''<D:getcontentlength>512</D:getcontentlength>'' @
     ''<D:getlastmodified>Mon, 02 Jan 2006 15:04:05 GMT</D:getlastmodified>'' @
     ''<D:resourcetype/></D:prop></D:propstat>'' @ [CHR 0x0A] @
     ''</D:response>'' @ [CHR 0x0A] @
     ''<D:response>'' @ [CHR 0x0A] @
     ''<D:href>/webdav/subdir/</D:href>'' @ [CHR 0x0A] @
     ''<D:propstat><D:prop><D:displayname>subdir</D:displayname>'' @
     ''<D:resourcetype><D:collection/></D:resourcetype></D:prop></D:propstat>'' @ [CHR 0x0A] @
     ''</D:response>'' @ [CHR 0x0A] @
     ''</D:multistatus>''\<close>

definition full_url_listing_body :: string where
  \<open>full_url_listing_body =
     ''<D:multistatus xmlns:D="DAV:">'' @
     ''<D:response><D:href>http://localhost/webdav/</D:href>'' @
     ''<D:propstat><D:prop><D:resourcetype><D:collection/></D:resourcetype>'' @
     ''</D:prop></D:propstat></D:response>'' @
     ''<D:response><D:href>http://localhost/webdav/file1.txt</D:href>'' @
     ''<D:propstat><D:prop><D:getcontentlength>512</D:getcontentlength>'' @
     ''<D:resourcetype/></D:prop></D:propstat></D:response>'' @
     ''</D:multistatus>''\<close>

section \<open>Facts about the string functions\<close>

lemma HasPrefix_iff: "HasPrefix s p \<longleftrightarrow> (\<exists>t. s = p @ t)"
  by (induction s p rule: HasPrefix.induct) auto

lemma Contains_iff: "Contains s sub \<longleftrightarrow> (\<exists>a b. s = a @ sub @ b)"
proof (induction s)
  case Nil
  then show ?case by auto
next
  case (Cons c cs)
  show ?case
  proof
    assume "Contains (c # cs) sub"
    then consider "HasPrefix (c # cs) sub" | "Contains cs sub" by auto
    then show "\<exists>a b. c # cs = a @ sub @ b"
    proof cases
      case 1
      then obtain t where "c # cs = sub @ t" by (auto simp: HasPrefix_iff)
      then have "c # cs = [] @ sub @ t" by simp
      then show ?thesis by blast
    next
      case 2
      then obtain a b where "cs = a @ sub @ b" using Cons.IH by blast
      then have "c # cs = (c # a) @ sub @ b" by simp
      then show ?thesis by blast
    qed
  next
    assume "\<exists>a b. c # cs = a @ sub @ b"
    then obtain a b where ab: "c # cs = a @ sub @ b" by blast
    show "Contains (c # cs) sub"
    proof (cases a)
      case Nil
      with ab have "HasPrefix (c # cs) sub" by (auto simp: HasPrefix_iff)
      then show ?thesis by simp
    next
      case (Cons a0 as)
      with ab have "cs = as @ sub @ b" by simp
      then have "Contains cs sub" using Cons.IH by blast
      then show ?thesis by simp
    qed
  qed
qed

lemma Contains_append_left: "Contains (a @ b) a"
  unfolding Contains_iff by (rule exI[of _ "[]"], rule exI[of _ b]) simp

lemma Contains_append_right: "Contains (a @ b) b"
  unfolding Contains_iff by (rule exI[of _ a], rule exI[of _ "[]"]) simp

lemma Contains_mid: "Contains (a @ b @ c) b"
  unfolding Contains_iff by blast

lemma Contains_appendI: "Contains s sub \<Longrightarrow> Contains (a @ s @ b) sub"
proof -
  assume "Contains s sub"
  then obtain x y where "s = x @ sub @ y" unfolding Contains_iff by blast
  then have "a @ s @ b = (a @ x) @ sub @ (y @ b)" by simp
  then show ?thesis unfolding Contains_iff by blast
qed

section \<open>FTP: path resolution and listing sizes\<close>

text \<open>
  C6. For every path \<open>p\<close>, \<open>resolvePath\<close> of the FTP adapter returns the base path, a
  \<open>/\<close> and \<open>p\<close> verbatim when the base path is not empty, and \<open>p\<close> itself when it is
  empty. Nothing is normalised or removed: a \<open>..\<close> in \<open>p\<close> is still in the result.
\<close>

theorem ftp_resolvePath_verbatim:
  "ftp_resolvePath cfg p = (if ftp_Path cfg = [] then p else ftp_Path cfg @ ''/'' @ p) \<and>
   (Contains p ''..'' \<longrightarrow> Contains (ftp_resolvePath cfg p) ''..'')"
proof -
  have 1: "ftp_resolvePath cfg p = (if ftp_Path cfg = [] then p else ftp_Path cfg @ ''/'' @ p)"
    by (simp add: ftp_resolvePath_def)
  have 2: "Contains (ftp_resolvePath cfg p) ''..''" if "Contains p ''..''"
  proof (cases "ftp_Path cfg = []")
    case True
    then show ?thesis using that by (simp add: ftp_resolvePath_def)
  next
    case False
    have "Contains ((ftp_Path cfg @ ''/'') @ p @ []) ''..''"
      using that by (rule Contains_appendI)
    then show ?thesis using False by (simp add: ftp_resolvePath_def)
  qed
  show ?thesis using 1 2 by blast
qed

theorem ftp_resolvePath_verbatim_witness:
  "Contains ''../../etc/passwd'' ''..'' \<and>
   ftp_resolvePath \<lparr> ftp_Host = ''h'', ftp_Port = 21, ftp_Username = [], ftp_Password = [],
                     ftp_Path = ''/data'' \<rparr> ''../../etc/passwd'' = ''/data/../../etc/passwd'' \<and>
   Contains (ftp_resolvePath \<lparr> ftp_Host = ''h'', ftp_Port = 21, ftp_Username = [],
                               ftp_Password = [], ftp_Path = ''/data'' \<rparr> ''../../etc/passwd'') ''..''"
  using ftp_resolvePath_verbatim
    [of "\<lparr> ftp_Host = ''h'', ftp_Port = 21, ftp_Username = [], ftp_Password = [],
            ftp_Path = ''/data'' \<rparr>" "''../../etc/passwd''"]
  by simp

lemma uint_max_int64: "uint (2 ^ 63 - 1 :: 64 word) = 9223372036854775807"
  by simp

lemma uint_le_max_int64:
  fixes w :: "64 word"
  assumes "w \<le> (2 ^ 63 - 1 :: 64 word)"
  shows "uint w \<le> 9223372036854775807"
  using assms unfolding word_le_def uint_max_int64 .

lemma uint_gt_max_int64:
  fixes w :: "64 word"
  assumes "w > (2 ^ 63 - 1 :: 64 word)"
  shows "uint w > 9223372036854775807"
  using assms unfolding word_less_def uint_max_int64 .

lemma sint_eq_uint_small:
  fixes w :: "64 word"
  assumes "\<not> w > (2 ^ 63 - 1 :: 64 word)"
  shows "sint w = uint w"
proof -
  have "w \<le> (2 ^ 63 - 1 :: 64 word)" using assms by (simp only: not_less)
  then have u: "uint w \<le> 9223372036854775807" by (rule uint_le_max_int64)
  have "(9223372036854775807::int) < 2 ^ 63" by simp
  with u have u2: "uint w < 2 ^ 63" by (rule le_less_trans)
  have "(- (2 ^ 63) :: int) \<le> 0" by simp
  then have l2: "- (2 ^ 63) \<le> uint w" using uint_ge_0[of w] by (rule order_trans)
  have "sint w = signed_take_bit 63 (uint w)" by (simp add: sint_uint)
  also have "\<dots> = uint w"
    using l2 u2 by (rule signed_take_bit_int_eq_self)
  finally show ?thesis .
qed

lemma sint_max_int64: "sint (2 ^ 63 - 1 :: 64 word) = 9223372036854775807"
  by simp

lemma ftp_entry_size_clamped:
  "0 \<le> sint (ftp_entry_size e) \<and>
   sint (ftp_entry_size e) =
     (if uint (entry_Size e) > 2 ^ 63 - 1 then 2 ^ 63 - 1 else uint (entry_Size e))"
proof (cases "entry_Size e > (2 ^ 63 - 1 :: 64 word)")
  case True
  then have "uint (entry_Size e) > 9223372036854775807" by (rule uint_gt_max_int64)
  moreover have "ftp_entry_size e = 2 ^ 63 - 1" using True by (simp add: ftp_entry_size_def)
  ultimately show ?thesis by (simp add: sint_max_int64)
next
  case False
  then have "entry_Size e \<le> (2 ^ 63 - 1 :: 64 word)" by (simp only: not_less)
  then have n: "uint (entry_Size e) \<le> 9223372036854775807" by (rule uint_le_max_int64)
  have "ftp_entry_size e = entry_Size e" using False by (simp add: ftp_entry_size_def Let_def)
  then have "sint (ftp_entry_size e) = uint (entry_Size e)"
    using sint_eq_uint_small[OF False] by simp
  then show ?thesis using n by simp
qed

text \<open>
  C9. Whenever \<open>ListDirectory\<close> of the FTP adapter returns a listing, it is the backend's
  listing entry by entry, and the size of each returned entry, read as a signed 64-bit
  number, is not negative: it is the backend's unsigned size when that is at most
  \<open>2^63 - 1\<close>, and exactly \<open>2^63 - 1\<close> when it is larger.
\<close>

theorem ftp_ListDirectory_sizes:
  assumes "ftp_ListDirectory E path (c, log) = (Return (Files files) None, c', log')"
  shows "\<exists>entries.
           ftp_List E log (the (ftp_client c)) (ftp_resolvePath (ftp_config c) path) = Inr entries \<and>
           length files = length entries \<and>
           (\<forall>i < length entries.
              0 \<le> sint (Size (files ! i)) \<and>
              sint (Size (files ! i)) =
                (if uint (entry_Size (entries ! i)) > 2 ^ 63 - 1 then 2 ^ 63 - 1
                 else uint (entry_Size (entries ! i))))"
proof -
  from assms obtain entries where
    l: "ftp_List E log (the (ftp_client c)) (ftp_resolvePath (ftp_config c) path) = Inr entries"
    and f: "files = map (ftp_entry_info path) entries"
    by (auto simp: ftp_ListDirectory_def Let_def not_connected_def split: if_splits sum.splits)
  have "\<forall>i < length entries.
          0 \<le> sint (Size (files ! i)) \<and>
          sint (Size (files ! i)) =
            (if uint (entry_Size (entries ! i)) > 2 ^ 63 - 1 then 2 ^ 63 - 1
             else uint (entry_Size (entries ! i)))"
    using ftp_entry_size_clamped by (simp add: f ftp_entry_info_def)
  with l f show ?thesis by simp
qed

theorem ftp_ListDirectory_sizes_witness:
  "ftp_ListDirectory sample_ftp_env ''pub'' (sample_ftp_client, []) =
     (Return (Files (map (ftp_entry_info ''pub'')
        [\<lparr> entry_Name = ''huge.bin'', entry_Size = 18446744073709551615, entry_Time = 0,
            entry_Type = EntryTypeFile \<rparr>,
         \<lparr> entry_Name = ''docs'', entry_Size = 4096, entry_Time = 0,
            entry_Type = EntryTypeFolder \<rparr>])) None,
      sample_ftp_client, [FtpList 1 ''/data/pub'']) \<and>
   sint (Size (ftp_entry_info ''pub''
        \<lparr> entry_Name = ''huge.bin'', entry_Size = 18446744073709551615, entry_Time = 0,
          entry_Type = EntryTypeFile \<rparr>)) = 2 ^ 63 - 1"
proof -
  have h: "ftp_ListDirectory sample_ftp_env ''pub'' (sample_ftp_client, []) =
     (Return (Files (map (ftp_entry_info ''pub'')
        [\<lparr> entry_Name = ''huge.bin'', entry_Size = 18446744073709551615, entry_Time = 0,
            entry_Type = EntryTypeFile \<rparr>,
         \<lparr> entry_Name = ''docs'', entry_Size = 4096, entry_Time = 0,
            entry_Type = EntryTypeFolder \<rparr>])) None,
      sample_ftp_client, [FtpList 1 ''/data/pub''])"
    by (simp add: ftp_ListDirectory_def sample_ftp_env_def sample_ftp_client_def
        ftp_IsConnected_def ftp_resolvePath_def)
  from ftp_ListDirectory_sizes[OF h] obtain entries where
    e: "ftp_List sample_ftp_env [] (the (ftp_client sample_ftp_client))
          (ftp_resolvePath (ftp_config sample_ftp_client) ''pub'') = Inr entries"
    and a: "\<forall>i < length entries.
              0 \<le> sint (Size (map (ftp_entry_info ''pub'')
                [\<lparr> entry_Name = ''huge.bin'', entry_Size = 18446744073709551615, entry_Time = 0,
                    entry_Type = EntryTypeFile \<rparr>,
                 \<lparr> entry_Name = ''docs'', entry_Size = 4096, entry_Time = 0,
                    entry_Type = EntryTypeFolder \<rparr>] ! i)) \<and>
              sint (Size (map (ftp_entry_info ''pub'')
                [\<lparr> entry_Name = ''huge.bin'', entry_Size = 18446744073709551615, entry_Time = 0,
                    entry_Type = EntryTypeFile \<rparr>,
                 \<lparr> entry_Name = ''docs'', entry_Size = 4096, entry_Time = 0,
                    entry_Type = EntryTypeFolder \<rparr>] ! i)) =
                (if uint (entry_Size (entries ! i)) > 2 ^ 63 - 1 then 2 ^ 63 - 1
                 else uint (entry_Size (entries ! i)))"
    by blast
  from e have es: "entries =
        [\<lparr> entry_Name = ''huge.bin'', entry_Size = 18446744073709551615, entry_Time = 0,
            entry_Type = EntryTypeFile \<rparr>,
         \<lparr> entry_Name = ''docs'', entry_Size = 4096, entry_Time = 0,
            entry_Type = EntryTypeFolder \<rparr>]"
    by (simp add: sample_ftp_env_def)
  have "(0::nat) < length entries" by (simp add: es)
  with a have "sint (Size (map (ftp_entry_info ''pub'')
                [\<lparr> entry_Name = ''huge.bin'', entry_Size = 18446744073709551615, entry_Time = 0,
                    entry_Type = EntryTypeFile \<rparr>,
                 \<lparr> entry_Name = ''docs'', entry_Size = 4096, entry_Time = 0,
                    entry_Type = EntryTypeFolder \<rparr>] ! 0)) =
                (if uint (entry_Size (entries ! 0)) > 2 ^ 63 - 1 then 2 ^ 63 - 1
                 else uint (entry_Size (entries ! 0)))"
    by blast
  then have "sint (Size (ftp_entry_info ''pub''
        \<lparr> entry_Name = ''huge.bin'', entry_Size = 18446744073709551615, entry_Time = 0,
          entry_Type = EntryTypeFile \<rparr>)) = 2 ^ 63 - 1"
    by (simp add: es)
  with h show ?thesis by blast
qed

section \<open>The factory\<close>

text \<open>
  C7. \<open>SupportedProtocols\<close> is the list \<open>smb, ftp, nfs, webdav, local\<close>, in this order,
  whatever the platform; and for a descriptor whose protocol tag is none of these,
  \<open>CreateClient\<close> returns no client and the error \<open>unsupported protocol: \<close> followed by the
  tag, which contains both \<open>unsupported protocol\<close> and the tag.
\<close>

theorem CreateClient_unsupported:
  "SupportedProtocols = [''smb'', ''ftp'', ''nfs'', ''webdav'', ''local''] \<and>
   (sc_Protocol config \<notin> set SupportedProtocols \<longrightarrow>
      CreateClient linux url_Parse float_to_int config =
        Failed (''unsupported protocol: '' @ sc_Protocol config) \<and>
      Contains (''unsupported protocol: '' @ sc_Protocol config) ''unsupported protocol'' \<and>
      Contains (''unsupported protocol: '' @ sc_Protocol config) (sc_Protocol config))"
proof -
  have 0: "SupportedProtocols = [''smb'', ''ftp'', ''nfs'', ''webdav'', ''local'']"
    by (simp add: SupportedProtocols_def)
  have 1: "CreateClient linux url_Parse float_to_int config =
             Failed (''unsupported protocol: '' @ sc_Protocol config)"
    if "sc_Protocol config \<notin> set SupportedProtocols"
    using that by (simp add: CreateClient_def SupportedProtocols_def)
  have "''unsupported protocol: '' @ sc_Protocol config =
          ''unsupported protocol'' @ ('': '' @ sc_Protocol config)"
    by simp
  then have 2: "Contains (''unsupported protocol: '' @ sc_Protocol config) ''unsupported protocol''"
    using Contains_append_left by metis
  have 3: "Contains (''unsupported protocol: '' @ sc_Protocol config) (sc_Protocol config)"
    by (rule Contains_append_right)
  show ?thesis using 0 1 2 3 by blast
qed

theorem CreateClient_unsupported_witness:
  "''bogus'' \<notin> set SupportedProtocols \<and>
   CreateClient True (\<lambda>s. None) (\<lambda>x :: unit. 0)
     \<lparr> sc_ID = ''1'', sc_Name = ''n'', sc_Protocol = ''bogus'', sc_Enabled = True,
       sc_MaxDepth = 3, sc_Settings = Map.empty, sc_CreatedAt = 0, sc_UpdatedAt = 0 \<rparr> =
     Failed ''unsupported protocol: bogus''"
  using CreateClient_unsupported
    [of "\<lparr> sc_ID = ''1'', sc_Name = ''n'', sc_Protocol = ''bogus'', sc_Enabled = True,
            sc_MaxDepth = 3, sc_Settings = Map.empty, sc_CreatedAt = 0, sc_UpdatedAt = 0 \<rparr>"
        True "\<lambda>s. None" "\<lambda>x :: unit. 0"]
  by (simp add: SupportedProtocols_def)

section \<open>WebDAV: construction\<close>

text \<open>
  C10. \<open>NewWebDAVClient\<close> takes the base URL from \<open>Config.URL\<close>. When \<open>Config.Path\<close> is
  empty or \<open>/\<close>, the base URL is the parsed \<open>Config.URL\<close> unchanged. Otherwise, the URL
  having parsed, its path component is replaced by \<open>Config.Path\<close> (whatever path the URL
  had) and its other components are kept. The adapter starts disconnected.
\<close>

theorem NewWebDAVClient_baseURL:
  "(webdav_Path cfg = [] \<or> webdav_Path cfg = ''/'' \<longrightarrow>
      NewWebDAVClient url_Parse cfg =
        Inr \<lparr> webdav_config = cfg, webdav_baseURL = url_Parse (webdav_URL cfg),
              webdav_connected = False \<rparr>) \<and>
   (webdav_Path cfg \<noteq> [] \<and> webdav_Path cfg \<noteq> ''/'' \<and> url_Parse (webdav_URL cfg) = Some u \<longrightarrow>
      NewWebDAVClient url_Parse cfg =
        Inr \<lparr> webdav_config = cfg,
              webdav_baseURL =
                Some \<lparr> url_Scheme = url_Scheme u, url_Host = url_Host u,
                       url_Path = webdav_Path cfg, url_RawPath = url_RawPath u,
                       url_RawQuery = url_RawQuery u, url_Fragment = url_Fragment u \<rparr>,
              webdav_connected = False \<rparr>)"
  by (cases u) (auto simp: NewWebDAVClient_def)

theorem NewWebDAVClient_baseURL_witness:
  "NewWebDAVClient sample_url_Parse (sample_webdav_config ''/'') =
     Inr \<lparr> webdav_config = sample_webdav_config ''/'',
           webdav_baseURL = Some sample_url, webdav_connected = False \<rparr> \<and>
   NewWebDAVClient sample_url_Parse (sample_webdav_config ''/files'') =
     Inr \<lparr> webdav_config = sample_webdav_config ''/files'',
           webdav_baseURL =
             Some \<lparr> url_Scheme = ''http'', url_Host = ''localhost'', url_Path = ''/files'',
                    url_RawPath = [], url_RawQuery = [], url_Fragment = [] \<rparr>,
           webdav_connected = False \<rparr>"
  using NewWebDAVClient_baseURL [of "sample_webdav_config ''/''" sample_url_Parse sample_url]
    NewWebDAVClient_baseURL [of "sample_webdav_config ''/files''" sample_url_Parse sample_url]
  by (simp add: sample_webdav_config_def sample_url_Parse_def sample_url_def)

section \<open>Operations on a disconnected adapter\<close>

lemma local_op_not_connected:
  "\<not> local_IsConnected c \<Longrightarrow>
     local_op E opn (c, log) = (Return (zero_value opn) (Some ''not connected''), c, log)"
  by (cases opn)
    (simp_all add: not_connected_def local_ReadFile_def local_WriteFile_def
      local_GetFileInfo_def local_FileExists_def local_DeleteFile_def local_CopyFile_def
      local_ListDirectory_def local_CreateDirectory_def local_DeleteDirectory_def
      local_TestConnection_def)

lemma smb_op_not_connected:
  "\<not> smb_IsConnected c \<Longrightarrow>
     smb_op E opn (c, log) = (Return (zero_value opn) (Some ''not connected''), c, log)"
  by (cases opn)
    (simp_all add: not_connected_def smb_ReadFile_def smb_WriteFile_def
      smb_GetFileInfo_def smb_FileExists_def smb_DeleteFile_def smb_CopyFile_def
      smb_ListDirectory_def smb_CreateDirectory_def smb_DeleteDirectory_def
      smb_TestConnection_def)

lemma ftp_op_not_connected:
  "\<not> ftp_IsConnected c \<Longrightarrow>
     ftp_op E opn (c, log) = (Return (zero_value opn) (Some ''not connected''), c, log)"
  by (cases opn)
    (simp_all add: not_connected_def ftp_ReadFile_def ftp_WriteFile_def
      ftp_GetFileInfo_def ftp_FileExists_def ftp_DeleteFile_def ftp_CopyFile_def
      ftp_ListDirectory_def ftp_CreateDirectory_def ftp_DeleteDirectory_def
      ftp_TestConnection_def)

lemma nfs_op_not_connected:
  "\<not> nfs_IsConnected E log c \<Longrightarrow>
     nfs_op E opn (c, log) = (Return (zero_value opn) (Some ''not connected''), c, log)"
  by (cases opn)
    (simp_all add: not_connected_def nfs_ReadFile_def nfs_WriteFile_def
      nfs_GetFileInfo_def nfs_FileExists_def nfs_DeleteFile_def nfs_CopyFile_def
      nfs_ListDirectory_def nfs_CreateDirectory_def nfs_DeleteDirectory_def
      nfs_TestConnection_def)

lemma webdav_op_not_connected:
  "\<not> webdav_IsConnected c \<Longrightarrow>
     webdav_op E opn (c, log) = (Return (zero_value opn) (Some ''not connected''), c, log)"
  by (cases opn)
    (simp_all add: not_connected_def webdav_ReadFile_def webdav_WriteFile_def
      webdav_GetFileInfo_def webdav_FileExists_def webdav_DeleteFile_def webdav_CopyFile_def
      webdav_ListDirectory_def webdav_CreateDirectory_def webdav_DeleteDirectory_def
      webdav_TestConnection_def)

text \<open>
  C2. For each of the five adapters and each of the ten operations \<open>ReadFile\<close>,
  \<open>WriteFile\<close>, \<open>GetFileInfo\<close>, \<open>FileExists\<close>, \<open>DeleteFile\<close>, \<open>CopyFile\<close>, \<open>ListDirectory\<close>,
  \<open>CreateDirectory\<close>, \<open>DeleteDirectory\<close> and \<open>TestConnection\<close>: when \<open>IsConnected\<close> is
  false, the operation returns an error whose message contains \<open>not connected\<close>
  (beside \<open>nil\<close>, or \<open>false\<close> for \<open>FileExists\<close>), the log of backend calls is unchanged
  and the state of the adapter is unchanged.
\<close>

theorem not_connected_fails_fast:
  assumes "\<not> Client_IsConnected W log a"
  shows "\<exists>msg. Client_do W opn (a, log) = (Return (zero_value opn) (Some msg), a, log) \<and>
               Contains msg ''not connected''"
proof -
  have "Client_do W opn (a, log) = (Return (zero_value opn) (Some ''not connected''), a, log)"
  proof (cases a)
    case (LocalClient c)
    with assms show ?thesis by (simp add: local_op_not_connected lift_step_def)
  next
    case (SMBClient c)
    with assms show ?thesis by (simp add: smb_op_not_connected lift_step_def)
  next
    case (FTPClient c)
    with assms show ?thesis by (simp add: ftp_op_not_connected lift_step_def)
  next
    case (NFSClient c)
    with assms show ?thesis by (simp add: nfs_op_not_connected lift_step_def)
  next
    case (WebDAVClient c)
    with assms show ?thesis by (simp add: webdav_op_not_connected lift_step_def)
  qed
  moreover have "Contains ''not connected'' ''not connected''"
    using Contains_append_left [of "''not connected''" "[]"] by simp
  ultimately show ?thesis by blast
qed

theorem not_connected_fails_fast_witness:
  "\<not> Client_IsConnected (sample_world not_exist None [] (Inl ''refused'')) []
       (NFSClient (sample_nfs_client False True)) \<and>
   (\<exists>msg. Client_do (sample_world not_exist None [] (Inl ''refused''))
             (WriteFile ''a/b.txt'' (Bytes ''hello''))
             (NFSClient (sample_nfs_client False True), []) =
           (Return NoValue (Some msg), NFSClient (sample_nfs_client False True), []) \<and>
          Contains msg ''not connected'')"
proof -
  have h: "\<not> Client_IsConnected (sample_world not_exist None [] (Inl ''refused'')) []
       (NFSClient (sample_nfs_client False True))"
    by (simp add: nfs_IsConnected_def sample_nfs_client_def)
  from not_connected_fails_fast [OF h, of "WriteFile ''a/b.txt'' (Bytes ''hello'')"]
  show ?thesis using h by simp
qed

section \<open>Disconnecting twice\<close>

lemma local_Disconnect_twice:
  "local_Disconnect (c, log) = (r1, c1, log1) \<Longrightarrow>
     local_Disconnect (c1, log1) = (Return NoValue None, c1, log1) \<and> \<not> local_IsConnected c1"
  by (auto simp: local_Disconnect_def local_IsConnected_def)

lemma webdav_Disconnect_twice:
  "webdav_Disconnect (c, log) = (r1, c1, log1) \<Longrightarrow>
     webdav_Disconnect (c1, log1) = (Return NoValue None, c1, log1) \<and> \<not> webdav_IsConnected c1"
  by (auto simp: webdav_Disconnect_def webdav_IsConnected_def)

lemma ftp_Disconnect_twice:
  "ftp_Disconnect E (c, log) = (r1, c1, log1) \<Longrightarrow>
     ftp_Disconnect E (c1, log1) = (Return NoValue None, c1, log1) \<and> \<not> ftp_IsConnected c1"
  by (auto simp: ftp_Disconnect_def ftp_IsConnected_def split: option.splits)

lemma smb_Disconnect_released:
  "smb_Disconnect E (c, log) = (r1, c1, log1) \<Longrightarrow>
     smb_share c1 = None \<and> smb_session c1 = None \<and> smb_conn c1 = None"
  by (auto simp: smb_Disconnect_def Let_def split: prod.splits if_splits)

lemma smb_Disconnect_no_handles:
  "smb_share c = None \<Longrightarrow> smb_session c = None \<Longrightarrow> smb_conn c = None \<Longrightarrow>
     smb_Disconnect E (c, log) = (Return NoValue None, c, log)"
  by (simp add: smb_Disconnect_def)

lemma smb_Disconnect_twice:
  assumes "smb_Disconnect E (c, log) = (r1, c1, log1)"
  shows "smb_Disconnect E (c1, log1) = (Return NoValue None, c1, log1) \<and> \<not> smb_IsConnected c1"
  using smb_Disconnect_released [OF assms] smb_Disconnect_no_handles [of c1 E log1]
  by (simp add: smb_IsConnected_def)

lemma nfs_Disconnect_twice:
  "nfs_Disconnect E (c, log) = (Return NoValue None, c1, log1) \<Longrightarrow>
     nfs_Disconnect E (c1, log1) = (Return NoValue None, c1, log1) \<and>
     \<not> nfs_IsConnected E log1 c1"
  by (auto simp: nfs_Disconnect_def nfs_IsConnected_def split: if_splits option.splits)

text \<open>
  C8, as the code has it. For the Local, SMB, FTP and WebDAV adapters, in every state
  and whatever the first call returned, a second \<open>Disconnect\<close> right after the first
  returns a \<open>nil\<close> error, makes no backend call and leaves the adapter in the state the
  first call left it in, which is disconnected. For the NFS adapter the same holds
  whenever the first call returned a \<open>nil\<close> error.
\<close>

theorem Disconnect_twice:
  assumes "Client_Disconnect W (a, log) = (r1, a1, log1)"
    and "(\<forall>c. a \<noteq> NFSClient c) \<or> r1 = Return NoValue None"
  shows "Client_Disconnect W (a1, log1) = (Return NoValue None, a1, log1) \<and>
         \<not> Client_IsConnected W log1 a1"
proof (cases a)
  case (LocalClient c)
  with assms(1) obtain c1 where "a1 = LocalClient c1" "local_Disconnect (c, log) = (r1, c1, log1)"
    by (auto simp: lift_step_def split: prod.splits)
  then show ?thesis using local_Disconnect_twice [of c log r1 c1 log1]
    by (simp add: lift_step_def)
next
  case (SMBClient c)
  with assms(1) obtain c1 where
    "a1 = SMBClient c1" "smb_Disconnect (w_smb W) (c, log) = (r1, c1, log1)"
    by (auto simp: lift_step_def split: prod.splits)
  then show ?thesis using smb_Disconnect_twice [of "w_smb W" c log r1 c1 log1]
    by (simp add: lift_step_def)
next
  case (FTPClient c)
  with assms(1) obtain c1 where
    "a1 = FTPClient c1" "ftp_Disconnect (w_ftp W) (c, log) = (r1, c1, log1)"
    by (auto simp: lift_step_def split: prod.splits)
  then show ?thesis using ftp_Disconnect_twice [of "w_ftp W" c log r1 c1 log1]
    by (simp add: lift_step_def)
next
  case (NFSClient c)
  with assms(2) have r1: "r1 = Return NoValue None" by simp
  from NFSClient assms(1) obtain c1 where
    "a1 = NFSClient c1" "nfs_Disconnect (w_os W) (c, log) = (r1, c1, log1)"
    by (auto simp: lift_step_def split: prod.splits)
  then show ?thesis using nfs_Disconnect_twice [of "w_os W" c log c1 log1] r1
    by (simp add: lift_step_def)
next
  case (WebDAVClient c)
  with assms(1) obtain c1 where
    "a1 = WebDAVClient c1" "webdav_Disconnect (c, log) = (r1, c1, log1)"
    by (auto simp: lift_step_def split: prod.splits)
  then show ?thesis using webdav_Disconnect_twice [of c log r1 c1 log1]
    by (simp add: lift_step_def)
qed

text \<open>
  The witness: an SMB adapter with all three handles, whose first \<open>Disconnect\<close> reports
  the failed logoff; the second one has nothing left to release.
\<close>

theorem Disconnect_twice_witness:
  "Client_Disconnect (sample_world not_exist None [] (Inl ''refused''))
     (SMBClient (sample_smb_client (Some 7)), []) =
     (Return NoValue
        (Some ''errors closing SMB client: [failed to logoff session: session expired]''),
      SMBClient (sample_smb_client None), [SmbUmount 7, SmbLogoff 7, ConnClose 7]) \<and>
   Client_Disconnect (sample_world not_exist None [] (Inl ''refused''))
     (SMBClient (sample_smb_client None), [SmbUmount 7, SmbLogoff 7, ConnClose 7]) =
     (Return NoValue None, SMBClient (sample_smb_client None),
      [SmbUmount 7, SmbLogoff 7, ConnClose 7]) \<and>
   \<not> Client_IsConnected (sample_world not_exist None [] (Inl ''refused''))
       [SmbUmount 7, SmbLogoff 7, ConnClose 7] (SMBClient (sample_smb_client None))"
proof -
  have h: "Client_Disconnect (sample_world not_exist None [] (Inl ''refused''))
     (SMBClient (sample_smb_client (Some 7)), []) =
     (Return NoValue
        (Some ''errors closing SMB client: [failed to logoff session: session expired]''),
      SMBClient (sample_smb_client None), [SmbUmount 7, SmbLogoff 7, ConnClose 7])"
    by (simp add: smb_Disconnect_def lift_step_def sample_world_def sample_smb_env_def
        sample_smb_client_def)
  have n: "(\<forall>c. SMBClient (sample_smb_client (Some 7)) \<noteq> NFSClient c) \<or>
           Return NoValue
             (Some ''errors closing SMB client: [failed to logoff session: session expired]'') =
           Return NoValue None"
    by simp
  from Disconnect_twice [OF h n] h show ?thesis by blast
qed

text \<open>
  Where the claim as stated fails: an NFS adapter that is mounted, on a system where
  unmounting fails. Both calls try to unmount and both return the error.
\<close>

theorem Disconnect_twice_counterexample:
  "Client_Disconnect (sample_world not_exist (Some ''device or resource busy'') [] (Inl ''refused''))
     (NFSClient (sample_nfs_client True True), []) =
     (Return NoValue
        (Some ''failed to unmount NFS share from /mnt/nfs: device or resource busy''),
      NFSClient (sample_nfs_client True True), [SysUnmount ''/mnt/nfs'']) \<and>
   Client_Disconnect (sample_world not_exist (Some ''device or resource busy'') [] (Inl ''refused''))
     (NFSClient (sample_nfs_client True True), [SysUnmount ''/mnt/nfs'']) =
     (Return NoValue
        (Some ''failed to unmount NFS share from /mnt/nfs: device or resource busy''),
      NFSClient (sample_nfs_client True True), [SysUnmount ''/mnt/nfs'', SysUnmount ''/mnt/nfs'']) \<and>
   Client_IsConnected (sample_world not_exist (Some ''device or resource busy'') [] (Inl ''refused''))
     [SysUnmount ''/mnt/nfs'', SysUnmount ''/mnt/nfs''] (NFSClient (sample_nfs_client True True))"
  by (simp add: nfs_Disconnect_def nfs_IsConnected_def nfs_isMounted_def lift_step_def
      sample_world_def sample_os_env_def sample_nfs_client_def)

section \<open>WebDAV: connecting\<close>

text \<open>
  C5, as the code has it. With a base URL that parsed and a request that could be
  built, \<open>Connect\<close> of the WebDAV adapter sends one \<open>PROPFIND\<close> request with header
  \<open>Depth: 0\<close> to the rendered base URL. It returns a \<open>nil\<close> error exactly when a response
  arrives whose status is 200 or 207, and then the adapter is connected. In every other
  case (any other status, the other 2xx ones included, or a transport failure) it
  returns an error and leaves the adapter's state as it was, so a disconnected adapter
  stays disconnected.
\<close>

theorem webdav_Connect_status:
  assumes "webdav_baseURL c = Some u"
    and "http_NewRequest E ''PROPFIND'' (url_String E u) = None"
    and "req = webdav_request c ''PROPFIND'' (url_String E u) [(''Depth'', ''0'')] None"
  shows "\<exists>r c' log'.
           webdav_Connect E (c, log) = (r, c', log') \<and>
           take (Suc (length log)) log' = log @ [HttpDo req] \<and>
           req_Method req = ''PROPFIND'' \<and> req_URL req = url_String E u \<and>
           req_Header req = [(''Depth'', ''0'')] \<and>
           ((r = Return NoValue None) =
              (\<exists>resp. http_Do E log req = Inr resp \<and>
                      (resp_StatusCode resp = 200 \<or> resp_StatusCode resp = 207))) \<and>
           (r = Return NoValue None \<longrightarrow> webdav_IsConnected c') \<and>
           (r \<noteq> Return NoValue None \<longrightarrow> (\<exists>msg. r = Return NoValue (Some msg)) \<and> c' = c)"
proof (cases "http_Do E log req")
  case (Inl err)
  then have "webdav_Connect E (c, log) =
      (Return NoValue (Some (''failed to connect to WebDAV server: '' @ err)), c,
       log @ [HttpDo req])"
    using assms by (simp add: webdav_Connect_def)
  then show ?thesis using Inl assms(3) by (simp add: webdav_request_def)
next
  case (Inr resp)
  show ?thesis
  proof (cases "resp_StatusCode resp = 200 \<or> resp_StatusCode resp = 207")
    case True
    then have "webdav_Connect E (c, log) =
        (Return NoValue None, c\<lparr>webdav_connected := True\<rparr>,
         log @ [HttpDo req, Close (resp_Body resp)])"
      using assms Inr by (auto simp: webdav_Connect_def)
    then show ?thesis using Inr True assms(3)
      by (simp add: webdav_request_def webdav_IsConnected_def)
  next
    case False
    then have "webdav_Connect E (c, log) =
        (Return NoValue (Some (''WebDAV server returned status '' @ itoa (resp_StatusCode resp))),
         c, log @ [HttpDo req, Close (resp_Body resp)])"
      using assms Inr by (auto simp: webdav_Connect_def)
    then show ?thesis using Inr False assms(3) by (simp add: webdav_request_def)
  qed
qed

theorem webdav_Connect_status_witness:
  "webdav_Connect (sample_http_env (Inr (207, []))) (sample_webdav_client False, []) =
     (Return NoValue None, sample_webdav_client True,
      [HttpDo \<lparr> req_Method = ''PROPFIND'', req_URL = ''http://localhost/webdav'',
                 req_BasicAuth = None, req_Header = [(''Depth'', ''0'')], req_Body = None \<rparr>,
       Close 5]) \<and>
   webdav_IsConnected (sample_webdav_client True)"
proof -
  have b: "webdav_baseURL (sample_webdav_client False) = Some sample_url"
    by (simp add: sample_webdav_client_def)
  have n: "http_NewRequest (sample_http_env (Inr (207, []))) ''PROPFIND''
             (url_String (sample_http_env (Inr (207, []))) sample_url) = None"
    by (simp add: sample_http_env_def)
  have e: "webdav_Connect (sample_http_env (Inr (207, []))) (sample_webdav_client False, []) =
     (Return NoValue None, sample_webdav_client True,
      [HttpDo \<lparr> req_Method = ''PROPFIND'', req_URL = ''http://localhost/webdav'',
                 req_BasicAuth = None, req_Header = [(''Depth'', ''0'')], req_Body = None \<rparr>,
       Close 5])"
    by (simp add: webdav_Connect_def sample_http_env_def sample_webdav_client_def
        sample_url_def sample_url_String_def sample_webdav_config_def webdav_request_def)
  from webdav_Connect_status [OF b n refl, of "[]"] e
  have "webdav_IsConnected (sample_webdav_client True)" by auto
  with e show ?thesis by blast
qed

lemma itoa_204: "itoa 204 = ''204''"
  by code_simp

text \<open>
  Where the claim as stated fails: the status 204 is a 2xx status, and \<open>Connect\<close>
  returns an error and leaves the adapter disconnected.
\<close>

theorem webdav_Connect_status_counterexample:
  "(200::int) \<le> 204 \<and> (204::int) < 300 \<and>
   webdav_Connect (sample_http_env (Inr (204, []))) (sample_webdav_client False, []) =
     (Return NoValue (Some ''WebDAV server returned status 204''), sample_webdav_client False,
      [HttpDo \<lparr> req_Method = ''PROPFIND'', req_URL = ''http://localhost/webdav'',
                 req_BasicAuth = None, req_Header = [(''Depth'', ''0'')], req_Body = None \<rparr>,
       Close 5]) \<and>
   \<not> webdav_IsConnected (sample_webdav_client False)"
  by (simp add: webdav_Connect_def sample_http_env_def sample_webdav_client_def
      sample_url_def sample_url_String_def sample_webdav_config_def webdav_request_def
      webdav_IsConnected_def itoa_204)

section \<open>FileExists\<close>

text \<open>
  C4, as the code has it, for a connected adapter.
  Local and NFS: when \<open>Stat\<close> fails, the answer is \<open>false\<close>, with a \<open>nil\<close> error exactly
  when \<open>os.IsNotExist\<close> holds of the failure.
  SMB: when \<open>Stat\<close> fails, the answer is \<open>false\<close>, with a \<open>nil\<close> error exactly when the
  message of the failure is \<open>file does not exist\<close> or \<open>no such file or directory\<close>.
  FTP: when \<open>FileSize\<close> fails, whatever the failure, the parent directory is listed; the
  error is \<open>nil\<close> exactly when that listing succeeds, and the answer is whether the
  listing has the name.
  WebDAV (the base URL having parsed and the request having been built): the error is
  \<open>nil\<close> exactly when a response arrives, whatever its status, and the answer is whether
  the status is 200; so a 404 and a 500 both give \<open>false\<close> with a \<open>nil\<close> error.
\<close>

theorem FileExists_outcomes:
  "(local_IsConnected lc \<and> os_Stat E log (local_resolvePath (local_basePath lc) p) = Inl e \<longrightarrow>
      (\<exists>err. local_FileExists E p (lc, log) =
               (Return (Bool False) err, lc,
                log @ [OsStat (local_resolvePath (local_basePath lc) p)]) \<and>
             ((err = None) = os_notexist e))) \<and>
   (nfs_IsConnected E log nc \<and> os_Stat E log (nfs_resolvePath (nfs_mountPoint nc) p) = Inl e \<longrightarrow>
      (\<exists>err. nfs_FileExists E p (nc, log) =
               (Return (Bool False) err, nc,
                log @ [OsStat (nfs_resolvePath (nfs_mountPoint nc) p)]) \<and>
             ((err = None) = os_notexist e))) \<and>
   (smb_IsConnected sc \<and> smb_Stat SE log (the (smb_share sc)) p = Inl m \<longrightarrow>
      (\<exists>err. smb_FileExists SE p (sc, log) =
               (Return (Bool False) err, sc, log @ [SmbStat (the (smb_share sc)) p]) \<and>
             ((err = None) = (m = ''file does not exist'' \<or> m = ''no such file or directory'')))) \<and>
   (ftp_IsConnected fc \<and>
    ftp_FileSize FE log (the (ftp_client fc)) (ftp_resolvePath (ftp_config fc) p) = Inl fm \<longrightarrow>
      (\<exists>b err log'. ftp_FileExists FE p (fc, log) = (Return (Bool b) err, fc, log') \<and>
         ((err = None) =
            (\<exists>entries.
               ftp_List FE (log @ [FtpFileSize (the (ftp_client fc))
                                     (ftp_resolvePath (ftp_config fc) p)])
                 (the (ftp_client fc)) (Dir (ftp_resolvePath (ftp_config fc) p)) = Inr entries)) \<and>
         (b = (\<exists>entries.
               ftp_List FE (log @ [FtpFileSize (the (ftp_client fc))
                                     (ftp_resolvePath (ftp_config fc) p)])
                 (the (ftp_client fc)) (Dir (ftp_resolvePath (ftp_config fc) p)) = Inr entries \<and>
               (\<exists>entry \<in> set entries. entry_Name entry = Base (ftp_resolvePath (ftp_config fc) p)))))) \<and>
   (webdav_IsConnected wc \<and> webdav_resolveURL HE wc p = Some fullURL \<and>
    http_NewRequest HE ''HEAD'' fullURL = None \<longrightarrow>
      (\<exists>b err log'. webdav_FileExists HE p (wc, log) = (Return (Bool b) err, wc, log') \<and>
         ((err = None) =
            (\<exists>resp. http_Do HE log (webdav_request wc ''HEAD'' fullURL [] None) = Inr resp)) \<and>
         (b = (\<exists>resp. http_Do HE log (webdav_request wc ''HEAD'' fullURL [] None) = Inr resp \<and>
                      resp_StatusCode resp = 200))))"
proof -
  have 1: "\<exists>err. local_FileExists E p (lc, log) =
               (Return (Bool False) err, lc,
                log @ [OsStat (local_resolvePath (local_basePath lc) p)]) \<and>
             ((err = None) = os_notexist e)"
    if "local_IsConnected lc" "os_Stat E log (local_resolvePath (local_basePath lc) p) = Inl e"
    using that by (auto simp: local_FileExists_def Let_def)
  have 2: "\<exists>err. nfs_FileExists E p (nc, log) =
               (Return (Bool False) err, nc,
                log @ [OsStat (nfs_resolvePath (nfs_mountPoint nc) p)]) \<and>
             ((err = None) = os_notexist e)"
    if "nfs_IsConnected E log nc" "os_Stat E log (nfs_resolvePath (nfs_mountPoint nc) p) = Inl e"
    using that by (auto simp: nfs_FileExists_def Let_def)
  have 3: "\<exists>err. smb_FileExists SE p (sc, log) =
               (Return (Bool False) err, sc, log @ [SmbStat (the (smb_share sc)) p]) \<and>
             ((err = None) = (m = ''file does not exist'' \<or> m = ''no such file or directory''))"
    if "smb_IsConnected sc" "smb_Stat SE log (the (smb_share sc)) p = Inl m"
    using that by (auto simp: smb_FileExists_def isNotExistError_def Let_def)
  have 4: "\<exists>b err log'. ftp_FileExists FE p (fc, log) = (Return (Bool b) err, fc, log') \<and>
         ((err = None) =
            (\<exists>entries.
               ftp_List FE (log @ [FtpFileSize (the (ftp_client fc))
                                     (ftp_resolvePath (ftp_config fc) p)])
                 (the (ftp_client fc)) (Dir (ftp_resolvePath (ftp_config fc) p)) = Inr entries)) \<and>
         (b = (\<exists>entries.
               ftp_List FE (log @ [FtpFileSize (the (ftp_client fc))
                                     (ftp_resolvePath (ftp_config fc) p)])
                 (the (ftp_client fc)) (Dir (ftp_resolvePath (ftp_config fc) p)) = Inr entries \<and>
               (\<exists>entry \<in> set entries. entry_Name entry = Base (ftp_resolvePath (ftp_config fc) p))))"
    if "ftp_IsConnected fc"
      "ftp_FileSize FE log (the (ftp_client fc)) (ftp_resolvePath (ftp_config fc) p) = Inl fm"
    using that by (auto simp: ftp_FileExists_def Let_def split: sum.splits)
  have 5: "\<exists>b err log'. webdav_FileExists HE p (wc, log) = (Return (Bool b) err, wc, log') \<and>
         ((err = None) =
            (\<exists>resp. http_Do HE log (webdav_request wc ''HEAD'' fullURL [] None) = Inr resp)) \<and>
         (b = (\<exists>resp. http_Do HE log (webdav_request wc ''HEAD'' fullURL [] None) = Inr resp \<and>
                      resp_StatusCode resp = 200))"
    if "webdav_IsConnected wc" "webdav_resolveURL HE wc p = Some fullURL"
      "http_NewRequest HE ''HEAD'' fullURL = None"
    using that by (auto simp: webdav_FileExists_def Let_def split: sum.splits)
  show ?thesis using 1 2 3 4 5 by blast
qed

lemma sample_paths:
  "local_resolvePath ''/data'' ''missing.txt'' = ''/data/missing.txt''"
  "nfs_resolvePath ''/mnt/nfs'' ''missing.txt'' = ''/mnt/nfs/missing.txt''"
  "Dir ''/data/missing.txt'' = ''/data''"
  "Base ''/data/missing.txt'' = ''missing.txt''"
  "Join ''/webdav'' (cleanPath ''missing.txt'') = ''/webdav/missing.txt''"
  by code_simp+

text \<open>
  The witness: five connected adapters asked for \<open>missing.txt\<close>. The operating system
  and the SMB share report that the file does not exist, the FTP server refuses
  \<open>SIZE\<close> and lists a directory without the name, the WebDAV server answers 404. Each
  adapter returns \<open>false\<close> and a \<open>nil\<close> error.
\<close>

theorem FileExists_outcomes_witness:
  "fst (local_FileExists (sample_os_env not_exist None) ''missing.txt''
          (sample_local_client True, [])) = Return (Bool False) None \<and>
   fst (nfs_FileExists (sample_os_env not_exist None) ''missing.txt''
          (sample_nfs_client True True, [])) = Return (Bool False) None \<and>
   fst (smb_FileExists (sample_smb_env ''file does not exist'') ''missing.txt''
          (sample_smb_client (Some 7), [])) = Return (Bool False) None \<and>
   fst (ftp_FileExists sample_ftp_env ''missing.txt'' (sample_ftp_client, [])) =
     Return (Bool False) None \<and>
   fst (webdav_FileExists (sample_http_env (Inr (404, []))) ''missing.txt''
          (sample_webdav_client True, [])) = Return (Bool False) None"
proof -
  have h1: "local_IsConnected (sample_local_client True) \<and>
        os_Stat (sample_os_env not_exist None) []
          (local_resolvePath (local_basePath (sample_local_client True)) ''missing.txt'') =
        Inl not_exist"
    by (simp add: local_IsConnected_def sample_local_client_def sample_os_env_def)
  have h2: "nfs_IsConnected (sample_os_env not_exist None) [] (sample_nfs_client True True) \<and>
        os_Stat (sample_os_env not_exist None) []
          (nfs_resolvePath (nfs_mountPoint (sample_nfs_client True True)) ''missing.txt'') =
        Inl not_exist"
    by (simp add: nfs_IsConnected_def nfs_isMounted_def sample_nfs_client_def sample_os_env_def)
  have h3: "smb_IsConnected (sample_smb_client (Some 7)) \<and>
        smb_Stat (sample_smb_env ''file does not exist'') []
          (the (smb_share (sample_smb_client (Some 7)))) ''missing.txt'' =
        Inl ''file does not exist''"
    by (simp add: smb_IsConnected_def sample_smb_client_def sample_smb_env_def)
  have h4: "ftp_IsConnected sample_ftp_client \<and>
        ftp_FileSize sample_ftp_env [] (the (ftp_client sample_ftp_client))
          (ftp_resolvePath (ftp_config sample_ftp_client) ''missing.txt'') =
        Inl ''550 not a plain file''"
    by (simp add: ftp_IsConnected_def sample_ftp_client_def sample_ftp_env_def)
  have h5: "webdav_IsConnected (sample_webdav_client True) \<and>
        webdav_resolveURL (sample_http_env (Inr (404, []))) (sample_webdav_client True)
          ''missing.txt'' = Some ''http://localhost/webdav/missing.txt'' \<and>
        http_NewRequest (sample_http_env (Inr (404, []))) ''HEAD''
          ''http://localhost/webdav/missing.txt'' = None"
    by (simp add: webdav_IsConnected_def sample_webdav_client_def sample_http_env_def
        webdav_resolveURL_def webdav_resolve_def sample_url_def sample_url_String_def
        sample_paths)
  note t = FileExists_outcomes
    [of "sample_local_client True" "sample_os_env not_exist None" "[]" "''missing.txt''"
        not_exist "sample_nfs_client True True" "sample_smb_client (Some 7)"
        "sample_smb_env ''file does not exist''" "''file does not exist''"
        sample_ftp_client sample_ftp_env "''550 not a plain file''"
        "sample_webdav_client True" "sample_http_env (Inr (404, []))"
        "''http://localhost/webdav/missing.txt''"]
  have c1: "fst (local_FileExists (sample_os_env not_exist None) ''missing.txt''
          (sample_local_client True, [])) = Return (Bool False) None"
    using t h1 by (auto simp: not_exist_def)
  have c2: "fst (nfs_FileExists (sample_os_env not_exist None) ''missing.txt''
          (sample_nfs_client True True, [])) = Return (Bool False) None"
    using t h2 by (auto simp: not_exist_def)
  have c3: "fst (smb_FileExists (sample_smb_env ''file does not exist'') ''missing.txt''
          (sample_smb_client (Some 7), [])) = Return (Bool False) None"
    using t h3 by auto
  have c4: "fst (ftp_FileExists sample_ftp_env ''missing.txt'' (sample_ftp_client, [])) =
     Return (Bool False) None"
    by (simp add: ftp_FileExists_def ftp_IsConnected_def sample_ftp_client_def
        sample_ftp_env_def ftp_resolvePath_def sample_paths)
  have c5: "fst (webdav_FileExists (sample_http_env (Inr (404, []))) ''missing.txt''
          (sample_webdav_client True, [])) = Return (Bool False) None"
    by (simp add: webdav_FileExists_def webdav_IsConnected_def sample_webdav_client_def
        sample_http_env_def webdav_resolveURL_def webdav_resolve_def sample_url_def
        sample_url_String_def sample_paths)
  show ?thesis using c1 c2 c3 c4 c5 by blast
qed

text \<open>
  Where the claim as stated fails: the WebDAV server answers 500, a failure other
  than not-found, and \<open>FileExists\<close> returns \<open>false\<close> with a \<open>nil\<close> error.
\<close>

theorem FileExists_counterexample:
  "webdav_IsConnected (sample_webdav_client True) \<and>
   webdav_FileExists (sample_http_env (Inr (500, []))) ''missing.txt''
     (sample_webdav_client True, []) =
     (Return (Bool False) None, sample_webdav_client True,
      [HttpDo \<lparr> req_Method = ''HEAD'', req_URL = ''http://localhost/webdav/missing.txt'',
                 req_BasicAuth = None, req_Header = [], req_Body = None \<rparr>,
       Close 5])"
  by (simp add: webdav_FileExists_def webdav_IsConnected_def sample_webdav_client_def
      sample_http_env_def webdav_resolveURL_def webdav_resolve_def sample_url_def
      sample_url_String_def sample_paths webdav_request_def sample_webdav_config_def)

section \<open>WebDAV: the listing parser\<close>

text \<open>
  C3 at the body of the repository's own test. The adapter is connected to
  \<open>http://localhost/webdav\<close> and lists \<open>/\<close>, so the queried URL is
  \<open>http://localhost/webdav\<close>; the server answers 207 with a body that holds the
  collection's own record and two children. The test expects two entries. The parser
  returns three: the collection's own record, whose \<open>href\<close> is the path \<open>/webdav/\<close> and
  not the queried URL, is not skipped, and every path keeps the prefix \<open>webdav/\<close>. With
  full URLs in the body, the collection's own record with a trailing slash is not
  skipped either: it comes back as an entry with an empty path.
\<close>

theorem webdav_ListDirectory_keeps_self_record:
  "fst (webdav_ListDirectory (sample_http_env (Inr (207, test_listing_body))) ''/''
          (sample_webdav_client True, [])) =
     Return (Files
       [\<lparr> Name = ''ebdav'', Size = 0, ModTime = 0, IsDir = True, Mode = 420,
           Path = ''webdav/'' \<rparr>,
        \<lparr> Name = ''ile1.txt'', Size = 512, ModTime = 0, IsDir = False, Mode = 420,
           Path = ''webdav/file1.txt'' \<rparr>,
        \<lparr> Name = ''ubdir'', Size = 0, ModTime = 0, IsDir = True, Mode = 420,
           Path = ''webdav/subdir/'' \<rparr>]) None \<and>
   fst (webdav_ListDirectory (sample_http_env (Inr (207, full_url_listing_body))) ''/''
          (sample_webdav_client True, [])) =
     Return (Files
       [\<lparr> Name = ''webdav'', Size = 0, ModTime = 0, IsDir = True, Mode = 420, Path = [] \<rparr>,
        \<lparr> Name = ''file1.txt'', Size = 512, ModTime = 0, IsDir = False, Mode = 420,
           Path = ''file1.txt'' \<rparr>]) None"
  by code_simp

section \<open>Resolved paths stay under the base\<close>

lemma dd_Cons:
  "Contains (a # s) ''..'' \<longleftrightarrow> (a = CHR ''.'' \<and> s \<noteq> [] \<and> hd s = CHR ''.'') \<or> Contains s ''..''"
  by (cases s) auto

lemma dd_Nil: "\<not> Contains [] ''..''"
  by simp

lemma dd_append:
  "Contains (xs @ ys) ''..'' \<longleftrightarrow>
     Contains xs ''..'' \<or> Contains ys ''..'' \<or>
     (xs \<noteq> [] \<and> last xs = CHR ''.'' \<and> ys \<noteq> [] \<and> hd ys = CHR ''.'')"
proof (induction xs)
  case Nil
  then show ?case by simp
next
  case (Cons a xs)
  show ?case
    unfolding append_Cons dd_Cons [of a "xs @ ys"] dd_Cons [of a xs] Cons.IH
    by (cases xs) auto
qed

lemma ReplaceAll_skip: "ReplaceAll (CHR ''.'' # CHR ''.'' # cs) ''..'' [] = ReplaceAll cs ''..'' []"
  by simp

lemma ReplaceAll_keep:
  "\<not> (c = CHR ''.'' \<and> cs \<noteq> [] \<and> hd cs = CHR ''.'') \<Longrightarrow>
     ReplaceAll (c # cs) ''..'' [] = c # ReplaceAll cs ''..'' []"
  by (cases cs) auto

lemma ReplaceAll_hd:
  "cs = [] \<or> hd cs \<noteq> CHR ''.'' \<Longrightarrow>
     ReplaceAll cs ''..'' [] = [] \<or> hd (ReplaceAll cs ''..'' []) \<noteq> CHR ''.''"
proof (cases cs)
  case Nil
  then show ?thesis by simp
next
  case (Cons d ds)
  assume "cs = [] \<or> hd cs \<noteq> CHR ''.''"
  with Cons have "d \<noteq> CHR ''.''" by simp
  then have "ReplaceAll (d # ds) ''..'' [] = d # ReplaceAll ds ''..'' []"
    by (intro ReplaceAll_keep) simp
  then show ?thesis using Cons \<open>d \<noteq> CHR ''.''\<close> by simp
qed

lemma ReplaceAll_no_dd: "\<not> Contains (ReplaceAll s ''..'' []) ''..''"
proof (induction "length s" arbitrary: s rule: less_induct)
  case less
  show ?case
  proof (cases s)
    case Nil
    then show ?thesis by simp
  next
    case (Cons c cs)
    show ?thesis
    proof (cases "c = CHR ''.'' \<and> cs \<noteq> [] \<and> hd cs = CHR ''.''")
      case True
      then obtain ds where ds: "cs = CHR ''.'' # ds" by (cases cs) auto
      have "ReplaceAll s ''..'' [] = ReplaceAll ds ''..'' []"
        unfolding Cons ds using True ReplaceAll_skip by simp
      moreover have "length ds < length s" using Cons ds by simp
      ultimately show ?thesis using less by simp
    next
      case False
      then have r: "ReplaceAll s ''..'' [] = c # ReplaceAll cs ''..'' []"
        unfolding Cons by (rule ReplaceAll_keep)
      have ih: "\<not> Contains (ReplaceAll cs ''..'' []) ''..''"
        using less [of cs] Cons by simp
      have "c = CHR ''.'' \<Longrightarrow> ReplaceAll cs ''..'' [] = [] \<or> hd (ReplaceAll cs ''..'' []) \<noteq> CHR ''.''"
        using False ReplaceAll_hd [of cs] by blast
      then show ?thesis unfolding r dd_Cons using ih by blast
    qed
  qed
qed

lemma cleanPath_no_dd: "\<not> Contains (cleanPath p) ''..''"
  by (simp add: cleanPath_def Let_def ReplaceAll_no_dd)


lemma splitSep_not_Nil: "splitSep s \<noteq> []"
  by (induction s) (auto split: list.splits)

lemma splitSep_append:
  "splitSep (a @ CHR ''/'' # b) = splitSep a @ splitSep b"
proof (induction a)
  case Nil
  then show ?case by simp
next
  case (Cons c cs)
  then show ?case
    using splitSep_not_Nil [of cs] by (cases "splitSep cs") auto
qed

lemma splitSep_hd_prefix: "HasPrefix s (hd (splitSep s))"
  by (induction s) (auto split: list.splits)

lemma Contains_trans: "Contains s e \<Longrightarrow> Contains e sub \<Longrightarrow> Contains s sub"
proof -
  assume "Contains s e" "Contains e sub"
  then obtain a b x y where "s = a @ e @ b" "e = x @ sub @ y"
    unfolding Contains_iff by blast
  then have "s = (a @ x) @ sub @ (y @ b)" by simp
  then show ?thesis unfolding Contains_iff by blast
qed

lemma splitSep_Contains: "e \<in> set (splitSep s) \<Longrightarrow> Contains s e"
proof (induction s arbitrary: e)
  case Nil
  then show ?case by simp
next
  case (Cons c cs)
  show ?case
  proof (cases "c = CHR ''/''")
    case True
    with Cons.prems have "e = [] \<or> e \<in> set (splitSep cs)" by simp
    then show ?thesis
    proof
      assume "e = []"
      then show ?thesis by simp
    next
      assume "e \<in> set (splitSep cs)"
      then have "Contains cs e" by (rule Cons.IH)
      then show ?thesis by simp
    qed
  next
    case False
    obtain x xs where sp: "splitSep cs = x # xs"
      using splitSep_not_Nil [of cs] by (cases "splitSep cs") auto
    with False Cons.prems have "e = c # x \<or> e \<in> set xs" by simp
    then show ?thesis
    proof
      assume e: "e = c # x"
      have "HasPrefix cs x" using splitSep_hd_prefix [of cs] sp by simp
      then have "HasPrefix (c # cs) e" using e by simp
      then show ?thesis by simp
    next
      assume "e \<in> set xs"
      then have "e \<in> set (splitSep cs)" using sp by simp
      then have "Contains cs e" by (rule Cons.IH)
      then show ?thesis by simp
    qed
  qed
qed

lemma splitSep_no_sep: "e \<in> set (splitSep s) \<Longrightarrow> CHR ''/'' \<notin> set e"
proof (induction s arbitrary: e)
  case Nil
  then show ?case by simp
next
  case (Cons c cs)
  obtain x xs where sp: "splitSep cs = x # xs"
    using splitSep_not_Nil [of cs] by (cases "splitSep cs") auto
  have x: "CHR ''/'' \<notin> set x" using Cons.IH [of x] sp by simp
  have xs: "\<And>e. e \<in> set xs \<Longrightarrow> CHR ''/'' \<notin> set e" using Cons.IH sp by simp
  show ?case
    using Cons.prems sp x xs Cons.IH by (cases "c = CHR ''/''") auto
qed

lemma joinSep_no_dd:
  "(\<And>e. e \<in> set es \<Longrightarrow> \<not> Contains e ''..'') \<Longrightarrow> \<not> Contains (joinSep es) ''..''"
proof (induction es rule: joinSep.induct)
  case 1
  then show ?case by simp
next
  case (2 x)
  then show ?case by simp
next
  case (3 x y ys)
  have a: "\<not> Contains x ''..''" using 3 by simp
  have b: "\<not> Contains (joinSep (y # ys)) ''..''" using 3 by simp
  have "\<not> Contains (CHR ''/'' # joinSep (y # ys)) ''..''"
    unfolding dd_Cons using b by simp
  then show ?case using a by (simp add: dd_append)
qed

lemma clean_elems_plain:
  "(\<And>e. e \<in> set es \<Longrightarrow> e \<noteq> ''..'') \<Longrightarrow>
     clean_elems rooted out es = rev out @ filter kept es"
  by (induction es arbitrary: out) (auto simp: kept_def)

lemma Clean_plain:
  assumes "\<not> Contains path ''..''" and "path \<noteq> []"
  shows "Clean path =
     (let s = (if hd path = CHR ''/'' then ''/'' else []) @ joinSep (filter kept (splitSep path))
      in if s = [] then ''.'' else s)"
proof -
  have "\<And>e. e \<in> set (splitSep path) \<Longrightarrow> e \<noteq> ''..''"
  proof
    fix e assume "e \<in> set (splitSep path)" "e = ''..''"
    then have "Contains path ''..''" using splitSep_Contains by blast
    with assms show False by simp
  qed
  then have "clean_elems (hd path = CHR ''/'') [] (splitSep path) = filter kept (splitSep path)"
    using clean_elems_plain [of "splitSep path" "hd path = CHR ''/''" "[]"] by simp
  then show ?thesis using assms(2) by (simp add: Clean_def Let_def)
qed

lemma kept_no_dd:
  assumes "\<not> Contains path ''..''"
  shows "\<not> Contains (joinSep (filter kept (splitSep path))) ''..''"
proof (rule joinSep_no_dd)
  fix e assume "e \<in> set (filter kept (splitSep path))"
  then have "Contains path e" using splitSep_Contains by simp
  then show "\<not> Contains e ''..''" using assms Contains_trans by blast
qed

lemma Clean_no_dd:
  assumes "\<not> Contains path ''..''"
  shows "\<not> Contains (Clean path) ''..''"
proof (cases "path = []")
  case True
  then show ?thesis by (simp add: Clean_def)
next
  case False
  have "\<not> Contains (CHR ''/'' # joinSep (filter kept (splitSep path))) ''..''"
    unfolding dd_Cons using kept_no_dd [OF assms] by simp
  then show ?thesis
    using kept_no_dd [OF assms] by (simp add: Clean_plain [OF assms False] Let_def)
qed

lemma Join_no_dd:
  assumes "\<not> Contains a ''..''" and "\<not> Contains b ''..''"
  shows "\<not> Contains (Join a b) ''..''"
proof -
  have "\<not> Contains (CHR ''/'' # b) ''..''" unfolding dd_Cons using assms(2) by simp
  then have "\<not> Contains (a @ CHR ''/'' # b) ''..''" using assms(1) by (simp add: dd_append)
  then have "\<not> Contains (Clean (a @ ''/'' @ b)) ''..''" using Clean_no_dd by simp
  then show ?thesis using Clean_no_dd [OF assms(2)] by (simp add: Join_def)
qed


lemma joinSep_append:
  "joinSep (as @ bs) =
     (if as = [] then joinSep bs else if bs = [] then joinSep as
      else joinSep as @ ''/'' @ joinSep bs)"
proof (induction as rule: joinSep.induct)
  case 1
  then show ?case by simp
next
  case (2 x)
  then show ?case by (cases bs) auto
next
  case (3 x y ys)
  then show ?case by auto
qed

lemma joinSep_hd:
  "es \<noteq> [] \<Longrightarrow> hd es \<noteq> [] \<Longrightarrow> joinSep es \<noteq> [] \<and> hd (joinSep es) = hd (hd es)"
  by (induction es rule: joinSep.induct) auto

lemma joinSep_kept_not_dot: "(\<And>e. e \<in> set es \<Longrightarrow> kept e) \<Longrightarrow> joinSep es \<noteq> ''.''"
proof (induction es rule: joinSep.induct)
  case 1
  then show ?case by simp
next
  case (2 x)
  then show ?case by (auto simp: kept_def)
next
  case (3 x y ys)
  have "kept x" using 3 by simp
  then have "x \<noteq> []" by (simp add: kept_def)
  then have "length x \<ge> 1" by (cases x) auto
  then have l: "length (x @ ''/'' @ joinSep (y # ys)) \<ge> 2" by simp
  have "x @ ''/'' @ joinSep (y # ys) \<noteq> ''.''"
  proof
    assume "x @ ''/'' @ joinSep (y # ys) = ''.''"
    then have "length (x @ ''/'' @ joinSep (y # ys)) = length ''.''" by (rule arg_cong)
    with l show False by simp
  qed
  then show ?case by simp
qed

lemma kept_hd_not_sep:
  assumes "filter kept (splitSep s) \<noteq> []"
  shows "hd (filter kept (splitSep s)) \<noteq> [] \<and>
         hd (hd (filter kept (splitSep s))) \<noteq> CHR ''/''"
proof -
  let ?e = "hd (filter kept (splitSep s))"
  have m: "?e \<in> set (filter kept (splitSep s))" using assms by (rule hd_in_set)
  then have k: "kept ?e" and i: "?e \<in> set (splitSep s)" unfolding set_filter by blast+
  have ne: "?e \<noteq> []" using k by (simp add: kept_def)
  have "CHR ''/'' \<notin> set ?e" using i by (rule splitSep_no_sep)
  then have "hd ?e \<noteq> CHR ''/''" using ne by (cases ?e) auto
  with ne show ?thesis by simp
qed

lemma joinSep_kept_hd:
  assumes "filter kept (splitSep s) \<noteq> []"
  shows "joinSep (filter kept (splitSep s)) \<noteq> [] \<and>
         hd (joinSep (filter kept (splitSep s))) \<noteq> CHR ''/''"
  using joinSep_hd [OF assms] kept_hd_not_sep [OF assms] by simp

lemma Join_at_or_below:
  assumes nb: "\<not> Contains base ''..''" and ne: "base \<noteq> []" and nq: "\<not> Contains q ''..''"
  shows "at_or_below base (Join base q)"
proof -
  let ?A = "filter kept (splitSep base)"
  let ?B = "filter kept (splitSep q)"
  let ?x = "base @ CHR ''/'' # q"
  let ?root = "if hd base = CHR ''/'' then ''/'' else []"
  have "\<not> Contains (CHR ''/'' # q) ''..''" unfolding dd_Cons using nq by simp
  then have nx: "\<not> Contains ?x ''..''" using nb by (simp add: dd_append)
  have xne: "?x \<noteq> []" by simp
  have hx: "hd ?x = hd base" using ne by simp
  have AB: "filter kept (splitSep ?x) = ?A @ ?B" by (simp add: splitSep_append)
  have J: "Join base q = Clean ?x" using ne by (simp add: Join_def)
  have Cx: "Clean ?x = (if ?root @ joinSep (?A @ ?B) = [] then ''.'' else ?root @ joinSep (?A @ ?B))"
    using Clean_plain [OF nx xne] unfolding hx AB Let_def .
  have Cb: "Clean base = (if ?root @ joinSep ?A = [] then ''.'' else ?root @ joinSep ?A)"
    using Clean_plain [OF nb ne] unfolding Let_def .
  have notdot: "joinSep ?A \<noteq> ''.''" by (rule joinSep_kept_not_dot) simp
  show ?thesis
  proof (cases "hd base = CHR ''/''")
    case rooted: True
    show ?thesis
    proof (cases "?A = []")
      case True
      then have "Clean base = ''/''" using Cb rooted by simp
      moreover have "Clean ?x = CHR ''/'' # joinSep ?B" using Cx rooted True by simp
      ultimately show ?thesis by (simp add: at_or_below_def J)
    next
      case False
      then have jA: "joinSep ?A \<noteq> []" using joinSep_kept_hd by blast
      then have b: "Clean base = CHR ''/'' # joinSep ?A" using Cb rooted by simp
      have x: "Clean ?x = CHR ''/'' # joinSep (?A @ ?B)" using Cx rooted by simp
      show ?thesis
      proof (cases "?B = []")
        case True
        then have "Clean ?x = Clean base" using x b by simp
        then show ?thesis using b jA by (simp add: at_or_below_def J)
      next
        case B: False
        have "joinSep (?A @ ?B) = joinSep ?A @ ''/'' @ joinSep ?B"
          using False B by (simp add: joinSep_append)
        then have "Clean ?x = (Clean base @ ''/'') @ joinSep ?B" using x b by simp
        then have "HasPrefix (Clean ?x) (Clean base @ ''/'')"
          unfolding HasPrefix_iff by blast
        then show ?thesis using b jA by (simp add: at_or_below_def J)
      qed
    qed
  next
    case rel: False
    show ?thesis
    proof (cases "?A = []")
      case True
      then have b: "Clean base = ''.''" using Cb rel by simp
      have "\<not> HasPrefix (Clean ?x) ''/''"
      proof (cases "?B = []")
        case True
        then have "Clean ?x = ''.''" using Cx rel \<open>?A = []\<close> by simp
        then show ?thesis by simp
      next
        case False
        then have h: "joinSep ?B \<noteq> [] \<and> hd (joinSep ?B) \<noteq> CHR ''/''"
          by (rule joinSep_kept_hd)
        have "Clean ?x = joinSep ?B" using Cx rel \<open>?A = []\<close> h by simp
        then show ?thesis using h by (cases "joinSep ?B") auto
      qed
      then show ?thesis using b by (simp add: at_or_below_def J)
    next
      case False
      then have h: "joinSep ?A \<noteq> [] \<and> hd (joinSep ?A) \<noteq> CHR ''/''"
        by (rule joinSep_kept_hd)
      then have b: "Clean base = joinSep ?A" using Cb rel by simp
      have bs: "Clean base \<noteq> ''/''" using b h by (cases "joinSep ?A") auto
      have bd: "Clean base \<noteq> ''.''" using b notdot by simp
      have jx: "joinSep (?A @ ?B) \<noteq> []"
        using h False by (auto simp: joinSep_append)
      have x: "Clean ?x = joinSep (?A @ ?B)" using Cx rel jx by simp
      show ?thesis
      proof (cases "?B = []")
        case True
        then have "Clean ?x = Clean base" using x b by simp
        then show ?thesis using bs bd by (simp add: at_or_below_def J)
      next
        case B: False
        have "joinSep (?A @ ?B) = joinSep ?A @ ''/'' @ joinSep ?B"
          using False B by (simp add: joinSep_append)
        then have "Clean ?x = (Clean base @ ''/'') @ joinSep ?B" using x b by simp
        then have "HasPrefix (Clean ?x) (Clean base @ ''/'')"
          unfolding HasPrefix_iff by blast
        then show ?thesis using bs bd by (simp add: at_or_below_def J)
      qed
    qed
  qed
qed

text \<open>
  C1, as the code has it. Let the configured base (the base path of the Local adapter,
  the mount point of the NFS adapter, the path of the base URL of the WebDAV adapter)
  contain no \<open>..\<close>. Then for every path \<open>p\<close>, with any number of \<open>..\<close> segments, the
  path that \<open>resolvePath\<close> returns, and the path component of the URL that \<open>resolveURL\<close>
  renders, contains no \<open>..\<close>; and when the base is not empty it is syntactically at or
  below the base.
\<close>

theorem resolve_sandboxed:
  assumes "\<not> Contains base ''..''" and "url_Path u = base"
  shows "\<not> Contains (local_resolvePath base p) ''..'' \<and>
         \<not> Contains (nfs_resolvePath base p) ''..'' \<and>
         \<not> Contains (url_Path (webdav_resolve u p)) ''..'' \<and>
         (base \<noteq> [] \<longrightarrow>
            at_or_below base (local_resolvePath base p) \<and>
            at_or_below base (nfs_resolvePath base p) \<and>
            at_or_below base (url_Path (webdav_resolve u p)))"
proof -
  have a: "\<not> Contains (Join base (cleanPath p)) ''..''"
    using assms(1) cleanPath_no_dd by (rule Join_no_dd)
  have b: "at_or_below base (Join base (cleanPath p))" if "base \<noteq> []"
    using assms(1) that cleanPath_no_dd by (rule Join_at_or_below)
  show ?thesis
    using a b assms(2)
    by (simp add: local_resolvePath_def nfs_resolvePath_def webdav_resolve_def)
qed

lemma sample_resolved:
  "local_resolvePath ''/webdav'' ''../../../etc/passwd'' = ''/webdav/etc/passwd''"
  "nfs_resolvePath ''/webdav'' ''../../../etc/passwd'' = ''/webdav/etc/passwd''"
  "url_Path (webdav_resolve sample_url ''../../../etc/passwd'') = ''/webdav/etc/passwd''"
  by code_simp+

theorem resolve_sandboxed_witness:
  "\<not> Contains ''/webdav'' ''..'' \<and> url_Path sample_url = ''/webdav'' \<and>
   local_resolvePath ''/webdav'' ''../../../etc/passwd'' = ''/webdav/etc/passwd'' \<and>
   \<not> Contains (local_resolvePath ''/webdav'' ''../../../etc/passwd'') ''..'' \<and>
   at_or_below ''/webdav'' (local_resolvePath ''/webdav'' ''../../../etc/passwd'') \<and>
   \<not> Contains (url_Path (webdav_resolve sample_url ''../../../etc/passwd'')) ''..'' \<and>
   at_or_below ''/webdav'' (url_Path (webdav_resolve sample_url ''../../../etc/passwd''))"
proof -
  have h1: "\<not> Contains ''/webdav'' ''..''" by simp
  have h2: "url_Path sample_url = ''/webdav''" by (simp add: sample_url_def)
  have h3: "''/webdav'' \<noteq> []" by simp
  from resolve_sandboxed [OF h1 h2, of "''../../../etc/passwd''"] h1 h2 h3
  show ?thesis by (simp add: sample_resolved)
qed

text \<open>
  Where the claim as stated fails: a base that itself contains \<open>..\<close>, as a directory
  name does in \<open>/srv/backup..old\<close> and as a relative mount point does in \<open>../mnt\<close>. The
  result is below the base and contains \<open>..\<close>.
\<close>

theorem resolve_sandboxed_counterexample:
  "local_resolvePath ''/srv/backup..old'' ''a.txt'' = ''/srv/backup..old/a.txt'' \<and>
   Contains (local_resolvePath ''/srv/backup..old'' ''a.txt'') ''..'' \<and>
   nfs_resolvePath ''../mnt'' ''../x'' = ''../mnt/x'' \<and>
   Contains (nfs_resolvePath ''../mnt'' ''../x'') ''..'' \<and>
   url_Path (webdav_resolve (sample_url\<lparr>url_Path := ''/dav/v1..2''\<rparr>) ''a.txt'') =
     ''/dav/v1..2/a.txt''"
  by code_simp

end
